theory Spec2Isabelle
  imports Complex_Main "HOL-Library.AList"
begin

section \<open>Exceptions, HTTP results and the clock\<close>

text \<open>
  Python exceptions are values. Only the classes the handlers tell apart are separate
  constructors: \<open>login\<close> catches \<open>ValueError\<close> before \<open>Exception\<close>; \<open>IndexError\<close>,
  \<open>TypeError\<close> and \<open>OSError\<close> are what list assignment, \<open>None + str\<close> and
  \<open>os.makedirs\<close> raise. The payload is \<open>str(e)\<close>. The source's message literals are
  Chinese; they are written here as ASCII translations.
\<close>

datatype exn =
    ValueError string
  | IndexError string
  | TypeError string
  | OSError string
  | Exception string

fun str :: "exn \<Rightarrow> string" where
  "str (ValueError s) = s"
| "str (IndexError s) = s"
| "str (TypeError s) = s"
| "str (OSError s) = s"
| "str (Exception s) = s"

text \<open>What an endpoint hands back: a body, or \<open>HTTPException(status_code, detail)\<close>.\<close>

datatype body =
    LoginBody string bool string
  | LogoutBody string
  | AgentResponse string string

datatype http = Response body | HTTPException nat string

text \<open>
  The two clock reads of a request: \<open>time.time()\<close> (a float, modelled as a real number)
  and \<open>datetime.now().isoformat()\<close>.
\<close>

record clock =
  time_time :: real
  datetime_now :: string

section \<open>Data model (agent\_manager.py)\<close>

record AgentConfig =
  model_name :: string
  api_key :: string
  base_url :: "string option"
  system_prompt :: string
  workspace_root :: string
  mcp_configs :: "string list"

text \<open>
  A tool server as \<open>load_mcp_servers\<close> returns it. \<open>args = None\<close> stands for an object
  without an \<open>args\<close> attribute (the HTTP and SSE servers), which \<open>hasattr\<close> tests.
\<close>

record MCPServer =
  command :: string
  args :: "string list option"
  timeout :: int

datatype ModelMessage = ModelRequest string | ModelResponse string

text \<open>The agent handle: what \<open>Agent(**agent_kwargs)\<close> was built from.\<close>

record Agent =
  model :: "string \<times> string \<times> string option"
  agent_system_prompt :: string
  toolsets :: "MCPServer list"

record UserSession =
  username :: string
  agent_config :: AgentConfig
  agent :: "Agent option"
  last_active :: real
  is_active :: bool
  history_context :: "ModelMessage list option"

text \<open>
  The manager. \<open>sessions\<close> is a Python dict: an association list in insertion order,
  read with \<open>map_of\<close>, written with \<open>AList.update\<close>, deleted from with \<open>AList.delete\<close>.
  The manager's own \<open>workspace_root\<close> and \<open>mcp_configs\<close> carry the prefix \<open>self_\<close>,
  the plain names being the fields of \<open>AgentConfig\<close>.
\<close>

record AgentManager =
  sessions :: "(string \<times> UserSession) list"
  filesystem_mcp_name :: string
  self_workspace_root :: "string option"
  self_mcp_configs :: "string list"

text \<open>
  Everything outside the repository that the code calls: the tool-config loader, the
  file system, the model client constructors, the model backend, the database and the
  working directory.
\<close>

record env =
  load_mcp_servers :: "string \<Rightarrow> exn + MCPServer list"
  makedirs :: "string \<Rightarrow> exn option"
  agent_init :: "AgentConfig \<Rightarrow> MCPServer list \<Rightarrow> exn option"
  agent_run :: "Agent \<Rightarrow> string \<Rightarrow> ModelMessage list option \<Rightarrow> exn + (ModelMessage list \<times> string)"
  psycopg2_connect :: "exn option"
  user_login_table :: "(string \<times> string) list"
  abspath_workspace :: string

section \<open>AgentManager\<close>

definition init_manager :: AgentManager where
  "init_manager =
     \<lparr>sessions = [],
      filesystem_mcp_name = ''@modelcontextprotocol/server-filesystem'',
      self_workspace_root = None,
      self_mcp_configs = []\<rparr>"

definition create_agent_for_user ::
  "env \<Rightarrow> string \<Rightarrow> AgentConfig \<Rightarrow> MCPServer list \<Rightarrow> exn + Agent" where
  "create_agent_for_user e uname cfg mcp_server =
     (case agent_init e cfg mcp_server of
        Some ex \<Rightarrow> Inl ex
      | None \<Rightarrow>
          Inr \<lparr>model = (model_name cfg, api_key cfg, base_url cfg),
               agent_system_prompt = system_prompt cfg,
               toolsets = mcp_server\<rparr>)"

text \<open>First loop of \<open>load_mcp_server\<close>: \<open>final_server += load_mcp_servers(config)\<close>.\<close>

fun load_configs :: "env \<Rightarrow> string list \<Rightarrow> MCPServer list \<Rightarrow> exn + MCPServer list" where
  "load_configs e [] final_server = Inr final_server"
| "load_configs e (config # configs) final_server =
     (case load_mcp_servers e config of
        Inl ex \<Rightarrow> Inl ex
      | Inr server \<Rightarrow> load_configs e configs (final_server @ server))"

text \<open>
  Body of the second loop, for one server \<open>i\<close>. \<open>self.workspace_root + ...\<close> raises
  TypeError while the field is still None; \<open>i.args[2] = ...\<close> raises IndexError on a
  list of two elements, after the directory has been made.
\<close>

definition stamp_server ::
  "env \<Rightarrow> AgentManager \<Rightarrow> string \<Rightarrow> int \<Rightarrow> MCPServer \<Rightarrow> exn + MCPServer" where
  "stamp_server e self uname tmo i =
     (case args i of
        None \<Rightarrow> Inr (i\<lparr>timeout := tmo\<rparr>)
      | Some as \<Rightarrow>
          if length as > 1 \<and> as ! 1 = filesystem_mcp_name self then
            (case self_workspace_root self of
               None \<Rightarrow> Inl (TypeError ''unsupported operand type(s) for +'')
             | Some wroot \<Rightarrow>
                 (let current_workspace = wroot @ ''/workspace_'' @ uname in
                  case makedirs e current_workspace of
                    Some ex \<Rightarrow> Inl ex
                  | None \<Rightarrow>
                      if length as > 2
                      then Inr (i\<lparr>args := Some (as[2 := current_workspace]), timeout := tmo\<rparr>)
                      else Inl (IndexError ''list assignment index out of range'')))
          else Inr (i\<lparr>timeout := tmo\<rparr>))"

fun stamp_all ::
  "env \<Rightarrow> AgentManager \<Rightarrow> string \<Rightarrow> int \<Rightarrow> MCPServer list \<Rightarrow> MCPServer list
   \<Rightarrow> exn + MCPServer list" where
  "stamp_all e self uname tmo [] final_server_timeout = Inr final_server_timeout"
| "stamp_all e self uname tmo (i # rest) final_server_timeout =
     (case stamp_server e self uname tmo i of
        Inl ex \<Rightarrow> Inl ex
      | Inr i' \<Rightarrow> stamp_all e self uname tmo rest (final_server_timeout @ [i']))"

definition load_mcp_server ::
  "env \<Rightarrow> AgentManager \<Rightarrow> string \<Rightarrow> string list \<Rightarrow> int \<Rightarrow> exn + MCPServer list" where
  "load_mcp_server e self uname configs tmo =
     (case load_configs e configs [] of
        Inl ex \<Rightarrow> Inl ex
      | Inr final_server \<Rightarrow> stamp_all e self uname tmo final_server [])"

text \<open>
  \<open>close_session\<close> sets \<open>is_active = False\<close> on the session object and deletes it from the
  dict. The object is out of the manager's reach from then on, so the manager the
  function returns is the old one without the entry.
\<close>

definition close_session :: "AgentManager \<Rightarrow> string \<Rightarrow> AgentManager" where
  "close_session self uname =
     (if map_of (sessions self) uname \<noteq> None
      then self\<lparr>sessions := AList.delete uname (sessions self)\<rparr>
      else self)"

definition get_session :: "AgentManager \<Rightarrow> string \<Rightarrow> UserSession option" where
  "get_session self uname = map_of (sessions self) uname"

definition update_last_active :: "clock \<Rightarrow> AgentManager \<Rightarrow> string \<Rightarrow> AgentManager" where
  "update_last_active clk self uname =
     (if map_of (sessions self) uname \<noteq> None
      then self\<lparr>sessions :=
             AList.map_entry uname (\<lambda>s. s\<lparr>last_active := time_time clk\<rparr>) (sessions self)\<rparr>
      else self)"

definition create_session ::
  "env \<Rightarrow> clock \<Rightarrow> AgentManager \<Rightarrow> string \<Rightarrow> AgentConfig
   \<Rightarrow> AgentManager \<times> (exn + UserSession)" where
  "create_session e clk self0 uname cfg =
     (let self1 = (if map_of (sessions self0) uname \<noteq> None
                   then close_session self0 uname else self0)
      in if api_key cfg = [] then (self1, Inl (ValueError ''API key must not be empty''))
         else if model_name cfg = []
         then (self1, Inl (ValueError ''model name must not be empty''))
         else
           (let self2 = self1\<lparr>self_workspace_root := Some (workspace_root cfg),
                              self_mcp_configs := mcp_configs cfg\<rparr>
            in case load_mcp_server e self2 uname (self_mcp_configs self2) 100 of
                 Inl ex \<Rightarrow> (self2, Inl ex)
               | Inr mcp_server \<Rightarrow>
                   (case create_agent_for_user e uname cfg mcp_server of
                      Inl ex \<Rightarrow>
                        (self2, Inl (ValueError (''failed to create agent: '' @ str ex)))
                    | Inr ag \<Rightarrow>
                        (let session =
                               \<lparr>username = uname, agent_config = cfg, agent = Some ag,
                                last_active = time_time clk, is_active = True,
                                history_context = Some []\<rparr>
                         in (self2\<lparr>sessions := AList.update uname session (sessions self2)\<rparr>,
                             Inr session)))))"

text \<open>
  \<open>cleanup_inactive_sessions\<close>: one clock read, the loop that collects the idle
  usernames, the loop that closes them.
\<close>

fun inactive_users ::
  "real \<Rightarrow> int \<Rightarrow> (string \<times> UserSession) list \<Rightarrow> string list \<Rightarrow> string list" where
  "inactive_users current_time tmo [] acc = acc"
| "inactive_users current_time tmo ((uname, session) # rest) acc =
     inactive_users current_time tmo rest
       (if current_time - last_active session > real_of_int tmo then acc @ [uname] else acc)"

fun close_sessions :: "AgentManager \<Rightarrow> string list \<Rightarrow> AgentManager" where
  "close_sessions self [] = self"
| "close_sessions self (uname # rest) = close_sessions (close_session self uname) rest"

definition cleanup_inactive_sessions :: "clock \<Rightarrow> AgentManager \<Rightarrow> int \<Rightarrow> AgentManager" where
  "cleanup_inactive_sessions clk self tmo =
     close_sessions self (inactive_users (time_time clk) tmo (sessions self) [])"

definition get_active_users :: "AgentManager \<Rightarrow> string list" where
  "get_active_users self = map fst (sessions self)"

section \<open>LoginValidater (utils.py)\<close>

text \<open>
  \<open>connect_db\<close> returns True or lets the driver's exception through. The table is the
  list of its (username, password) rows; the query selects the rows of one username.
\<close>

definition connect_db :: "env \<Rightarrow> exn + bool" where
  "connect_db e = (case psycopg2_connect e of Some ex \<Rightarrow> Inl ex | None \<Rightarrow> Inr True)"

fun check_rows :: "(string \<times> string) list \<Rightarrow> string \<Rightarrow> bool \<times> bool" where
  "check_rows [] password = (True, False)"
| "check_rows ((usr, pwd) # rows) password =
     (if pwd = password then (True, True) else check_rows rows password)"

definition validate_login :: "env \<Rightarrow> string \<Rightarrow> string \<Rightarrow> bool \<times> bool" where
  "validate_login e uname password =
     (let rows = filter (\<lambda>(usr, pwd). usr = uname) (user_login_table e)
      in if length rows = 0 then (False, False) else check_rows rows password)"

section \<open>Endpoints (main.py)\<close>

record UserLogin =
  login_username :: string
  login_password :: string
  login_model_name :: string
  login_api_key :: string
  login_base_url :: "string option"
  login_system_prompt :: string

record UserMessage =
  msg_username :: string
  message :: string

fun join :: "string \<Rightarrow> string list \<Rightarrow> string" where
  "join sep [] = []"
| "join sep [x] = x"
| "join sep (x # y # ys) = x @ sep @ join sep (y # ys)"

text \<open>Lines 100 to 106 of \<open>login\<close>: the two base sources, and the map source for admin.\<close>

definition login_mcp_configs :: "string \<Rightarrow> string list" where
  "login_mcp_configs uname =
     [''./config/mcp_config_base.json'', ''./config/mcp_config_office.json'']
     @ (if uname = ''admin'' then [''./config/mcp_config_map.json''] else [])"

definition login_agent_config :: "env \<Rightarrow> UserLogin \<Rightarrow> AgentConfig" where
  "login_agent_config e user =
     \<lparr>model_name = login_model_name user,
      api_key = login_api_key user,
      base_url = login_base_url user,
      system_prompt = login_system_prompt user,
      workspace_root = abspath_workspace e,
      mcp_configs = login_mcp_configs (login_username user)\<rparr>"

text \<open>
  \<open>login\<close>. An exception no handler catches (the driver's, in \<open>connect_db\<close>) is the
  framework's plain 500 response.
\<close>

definition login :: "env \<Rightarrow> clock \<Rightarrow> AgentManager \<Rightarrow> UserLogin \<Rightarrow> AgentManager \<times> http" where
  "login e clk self user =
     (if login_username user = [] then (self, HTTPException 400 ''username must not be empty'')
      else
        (let validation_errors =
               (if login_model_name user = [] then [''model name''] else [])
               @ (if login_api_key user = [] then [''API key''] else [])
               @ (if login_system_prompt user = [] then [''system prompt''] else [])
         in if validation_errors \<noteq> []
            then (self, HTTPException 400
                    (''these fields must not be empty: '' @ join '', '' validation_errors))
            else
              (case connect_db e of
                 Inl ex \<Rightarrow> (self, HTTPException 500 ''Internal Server Error'')
               | Inr res \<Rightarrow>
                   if \<not> res then (self, HTTPException 500 ''database connection failed'')
                   else
                     (case validate_login e (login_username user) (login_password user) of
                        (pass_usr, pass_pwd) \<Rightarrow>
                          if \<not> pass_usr then (self, HTTPException 400 ''unknown username'')
                          else if \<not> pass_pwd then (self, HTTPException 400 ''wrong password'')
                          else
                            (let self1 =
                                   (case get_session self (login_username user) of
                                      None \<Rightarrow> self
                                    | Some existing_session \<Rightarrow>
                                        if is_active existing_session
                                        then close_session self (login_username user)
                                        else self)
                             in case create_session e clk self1 (login_username user)
                                       (login_agent_config e user) of
                                  (self2, Inr session) \<Rightarrow>
                                    (self2, Response (LoginBody
                                       (''user '' @ login_username user @ '' logged in'')
                                       True (datetime_now clk)))
                                | (self2, Inl (ValueError msg)) \<Rightarrow>
                                    (self2, HTTPException 400 msg)
                                | (self2, Inl ex) \<Rightarrow>
                                    (self2, HTTPException 500
                                       (''failed to create session: '' @ str ex)))))))"

definition logout :: "AgentManager \<Rightarrow> string \<Rightarrow> AgentManager \<times> http" where
  "logout self uname =
     (close_session self uname, Response (LogoutBody (''user '' @ uname @ '' logged out'')))"

text \<open>
  \<open>chat\<close> has one suspension point, \<open>await session.agent.run(...)\<close>. \<open>chat_begin\<close> is
  the code up to it: the lookup, the two checks, the activity update, and the arguments
  of the backend call as they are evaluated there. \<open>chat_resume\<close> is the code after it.
  That code touches nothing but the local \<open>session\<close>, the object fetched by the lookup:
  on a result it assigns the returned message list to the object's history, on an
  exception it leaves the object alone and answers 500. So \<open>chat_resume\<close> returns what
  happens to that object, as a function on it, and the response; it neither reads nor
  writes the manager.
\<close>

record pending =
  pending_username :: string
  pending_agent :: Agent
  pending_message :: string
  pending_history :: "ModelMessage list option"

definition chat_begin ::
  "clock \<Rightarrow> AgentManager \<Rightarrow> UserMessage \<Rightarrow> AgentManager \<times> (http + pending)" where
  "chat_begin clk self user_message =
     (case get_session self (msg_username user_message) of
        None \<Rightarrow> (self, Inl (HTTPException 404 ''user session does not exist, log in again''))
      | Some session \<Rightarrow>
          (case agent session of
             None \<Rightarrow> (self, Inl (HTTPException 500 ''agent not initialised''))
           | Some ag \<Rightarrow>
               (update_last_active clk self (msg_username user_message),
                Inr \<lparr>pending_username = msg_username user_message,
                     pending_agent = ag,
                     pending_message = message user_message,
                     pending_history = history_context session\<rparr>)))"

definition chat_resume ::
  "env \<Rightarrow> clock \<Rightarrow> pending \<Rightarrow> (UserSession \<Rightarrow> UserSession) \<times> http" where
  "chat_resume e clk p =
     (case agent_run e (pending_agent p) (pending_message p) (pending_history p) of
        Inl ex \<Rightarrow>
          ((\<lambda>session. session), HTTPException 500 (''agent processing error: '' @ str ex))
      | Inr (all_messages, output) \<Rightarrow>
          ((\<lambda>session. session\<lparr>history_context := Some all_messages\<rparr>),
           Response (AgentResponse output (datetime_now clk))))"

text \<open>
  One chat call run from its first line to its last with no other request in between.
  The object it fetched is then still the entry of its username when it resumes, so
  what \<open>chat_resume\<close> does to the object happens to that entry.
\<close>

definition chat :: "env \<Rightarrow> clock \<Rightarrow> AgentManager \<Rightarrow> UserMessage \<Rightarrow> AgentManager \<times> http" where
  "chat e clk self user_message =
     (case chat_begin clk self user_message of
        (self1, Inl r) \<Rightarrow> (self1, r)
      | (self1, Inr p) \<Rightarrow>
          (case chat_resume e clk p of
             (assign, r) \<Rightarrow>
               (self1\<lparr>sessions :=
                        AList.map_entry (pending_username p) assign (sessions self1)\<rparr>,
                r)))"


text \<open>One round of \<open>cleanup_task\<close>, after its sleep.\<close>

definition cleanup_task :: "clock \<Rightarrow> AgentManager \<Rightarrow> AgentManager" where
  "cleanup_task clk self = cleanup_inactive_sessions clk self 1800"

subsection \<open>Requests of one event loop\<close>

text \<open>
  The server runs its coroutines on one event loop: a request runs until it awaits the
  backend, and other requests run until the backend call completes. \<open>Arrive\<close> is a chat
  request running up to its await, \<open>Complete\<close> the same request resuming. The events are
  chat requests only. No chat request registers or removes a session, so the object a
  request fetched when it arrived is still the entry of its username when it completes,
  and what \<open>chat_resume\<close> does to the object happens to that entry. Logins, logouts and
  sweeps between the two halves of a chat request are outside this model.
\<close>

datatype event = Arrive nat clock UserMessage | Complete nat clock

record server =
  manager :: AgentManager
  awaiting :: "(nat \<times> pending) list"
  replies :: "(nat \<times> http) list"




text \<open>
  Requests that all arrive before any of them completes, and the completions in an order
  of their own.
\<close>

fun arrivals :: "(nat \<times> clock \<times> string) list \<Rightarrow> string \<Rightarrow> event list" where
  "arrivals [] uname = []"
| "arrivals ((rid, clk, msg) # rest) uname =
     Arrive rid clk \<lparr>msg_username = uname, message = msg\<rparr> # arrivals rest uname"

fun completions :: "(nat \<times> clock) list \<Rightarrow> event list" where
  "completions [] = []"
| "completions ((rid, clk) # rest) = Complete rid clk # completions rest"


text \<open>
  Turns that overwrite one another: every backend call sees the same history \<open>h0\<close>, and
  each call that succeeds replaces whatever the history has become by its own result.
\<close>

fun overwrites ::
  "env \<Rightarrow> Agent \<Rightarrow> ModelMessage list option \<Rightarrow> ModelMessage list option \<Rightarrow> string list
   \<Rightarrow> ModelMessage list option" where
  "overwrites e ag h0 h [] = h"
| "overwrites e ag h0 h (msg # msgs) =
     (case agent_run e ag msg h0 of
        Inl ex \<Rightarrow> overwrites e ag h0 h msgs
      | Inr (all_messages, output) \<Rightarrow> overwrites e ag h0 (Some all_messages) msgs)"

section \<open>Provisioning as the specification words it\<close>

text \<open>
  The filesystem tool is the spec whose second argument is the fixed identifier. A
  provisioned spec carries the uniform timeout, and the filesystem tool has its third
  argument replaced by the user's sandbox path \<open>{workspace_root}/workspace_{username}\<close>.
\<close>

definition is_filesystem_tool :: "string \<Rightarrow> MCPServer \<Rightarrow> bool" where
  "is_filesystem_tool fsname i =
     (case args i of None \<Rightarrow> False | Some as \<Rightarrow> length as > 1 \<and> as ! 1 = fsname)"

definition provisioned :: "string \<Rightarrow> string \<Rightarrow> string \<Rightarrow> int \<Rightarrow> MCPServer \<Rightarrow> MCPServer" where
  "provisioned fsname wroot uname tmo i =
     (if is_filesystem_tool fsname i
      then i\<lparr>args := map_option (\<lambda>as. as[2 := wroot @ ''/workspace_'' @ uname]) (args i),
             timeout := tmo\<rparr>
      else i\<lparr>timeout := tmo\<rparr>)"

section \<open>A concrete deployment\<close>

text \<open>
  A small world to run the code in: three configuration files, a backend that answers
  every message, a user table with two rows.
\<close>

definition fs_server :: MCPServer where
  "fs_server =
     \<lparr>command = ''npx'',
      args = Some [''-y'', ''@modelcontextprotocol/server-filesystem'', ''/tmp''],
      timeout = 5\<rparr>"

definition word_server :: MCPServer where
  "word_server = \<lparr>command = ''uv'', args = Some [''run'', ''word.py''], timeout = 5\<rparr>"

definition map_server :: MCPServer where
  "map_server = \<lparr>command = ''http://maps/mcp'', args = None, timeout = 5\<rparr>"

definition demo_load :: "MCPServer list \<Rightarrow> string \<Rightarrow> exn + MCPServer list" where
  "demo_load map_servers config =
     (if config = ''./config/mcp_config_base.json'' then Inr [fs_server]
      else if config = ''./config/mcp_config_office.json'' then Inr [word_server]
      else if config = ''./config/mcp_config_map.json'' then Inr map_servers
      else Inl (OSError ''No such file or directory''))"

definition echo_run ::
  "Agent \<Rightarrow> string \<Rightarrow> ModelMessage list option \<Rightarrow> exn + (ModelMessage list \<times> string)" where
  "echo_run ag msg h =
     Inr ((case h of None \<Rightarrow> [] | Some ms \<Rightarrow> ms) @ [ModelRequest msg, ModelResponse (''re: '' @ msg)],
          ''re: '' @ msg)"

definition demo_env :: env where
  "demo_env =
     \<lparr>load_mcp_servers = demo_load [map_server],
      makedirs = (\<lambda>path. None),
      agent_init = (\<lambda>cfg servers. None),
      agent_run = echo_run,
      psycopg2_connect = None,
      user_login_table = [(''alice'', ''pw''), (''admin'', ''pw'')],
      abspath_workspace = ''/srv/workspace''\<rparr>"

definition clock_at :: "real \<Rightarrow> clock" where
  "clock_at t = \<lparr>time_time = t, datetime_now = ''now''\<rparr>"

definition demo_login :: "string \<Rightarrow> string \<Rightarrow> UserLogin" where
  "demo_login uname pw =
     \<lparr>login_username = uname, login_password = pw, login_model_name = ''deepseek-chat'',
      login_api_key = ''sk'', login_base_url = None, login_system_prompt = ''be kind''\<rparr>"

definition demo_config :: AgentConfig where
  "demo_config = login_agent_config demo_env (demo_login ''alice'' ''pw'')"

definition says :: "string \<Rightarrow> string \<Rightarrow> UserMessage" where
  "says uname msg = \<lparr>msg_username = uname, message = msg\<rparr>"

text \<open>The manager after alice has logged in at time 0.\<close>

definition alice_manager :: AgentManager where
  "alice_manager = fst (login demo_env (clock_at 0) init_manager (demo_login ''alice'' ''pw''))"

text \<open>The same world with a model client that rejects the credential, and with a backend that is down.\<close>

definition rejecting_env :: env where
  "rejecting_env = demo_env\<lparr>agent_init := (\<lambda>cfg servers. Some (Exception ''invalid api key''))\<rparr>"

definition down_env :: env where
  "down_env = demo_env\<lparr>agent_run := (\<lambda>ag msg h. Inl (Exception ''timed out''))\<rparr>"

definition alice_agent :: Agent where
  "alice_agent =
     \<lparr>model = (''deepseek-chat'', ''sk'', None),
      agent_system_prompt = ''be kind'',
      toolsets =
        [\<lparr>command = ''npx'',
          args = Some [''-y'', ''@modelcontextprotocol/server-filesystem'',
                       ''/srv/workspace/workspace_alice''],
          timeout = 100\<rparr>,
         \<lparr>command = ''uv'', args = Some [''run'', ''word.py''], timeout = 100\<rparr>]\<rparr>"

definition alice_session :: UserSession where
  "alice_session =
     \<lparr>username = ''alice'', agent_config = demo_config, agent = Some alice_agent,
      last_active = 0, is_active = True, history_context = Some []\<rparr>"

text \<open>Two sessions, alice last active at 0 and bob at 100.\<close>

definition bob_session :: UserSession where
  "bob_session = alice_session\<lparr>username := ''bob'', last_active := 100\<rparr>"

definition two_manager :: AgentManager where
  "two_manager =
     \<lparr>sessions = [(''alice'', alice_session), (''bob'', bob_session)],
      filesystem_mcp_name = ''@modelcontextprotocol/server-filesystem'',
      self_workspace_root = Some ''/srv/workspace'',
      self_mcp_configs = [''./config/mcp_config_base.json'', ''./config/mcp_config_office.json'']\<rparr>"

text \<open>A filesystem tool configured without its root-directory argument.\<close>

definition short_fs_server :: MCPServer where
  "short_fs_server =
     \<lparr>command = ''npx'', args = Some [''-y'', ''@modelcontextprotocol/server-filesystem''],
      timeout = 5\<rparr>"

definition short_env :: env where
  "short_env = demo_env\<lparr>load_mcp_servers := (\<lambda>config. Inr [short_fs_server])\<rparr>"

text \<open>The same world with a map configuration file that lists no server.\<close>

definition bare_env :: env where
  "bare_env = demo_env\<lparr>load_mcp_servers := demo_load []\<rparr>"



text \<open>The same world with the database unreachable.\<close>

definition offline_env :: env where
  "offline_env = demo_env\<lparr>psycopg2_connect := Some (Exception ''connection refused'')\<rparr>"

section \<open>The session store\<close>

lemma close_session_lookup:
  "map_of (sessions (close_session self u)) v = (if v = u then None else map_of (sessions self) v)"
  by (auto simp: close_session_def AList.delete_conv)

lemma close_session_sessions:
  "sessions (close_session self u) = filter (\<lambda>p. fst p \<noteq> u) (sessions self)"
proof (cases "map_of (sessions self) u")
  case None
  then have "u \<notin> fst ` set (sessions self)" by (simp add: map_of_eq_None_iff)
  then have "filter (\<lambda>p. fst p \<noteq> u) (sessions self) = sessions self"
    by (auto simp: filter_id_conv)
  with None show ?thesis by (simp add: close_session_def)
next
  case (Some s)
  then show ?thesis
    by (auto simp add: close_session_def AList.delete_eq case_prod_unfold intro!: filter_cong)
qed

lemma close_session_fields:
  "filesystem_mcp_name (close_session self u) = filesystem_mcp_name self"
  "self_workspace_root (close_session self u) = self_workspace_root self"
  "self_mcp_configs (close_session self u) = self_mcp_configs self"
  by (simp_all add: close_session_def)

lemma close_session_absent:
  "map_of (sessions self) u = None \<Longrightarrow> close_session self u = self"
  by (simp add: close_session_def)

lemma update_last_active_lookup:
  "map_of (sessions (update_last_active clk self u)) v =
     (if v = u then map_option (\<lambda>s. s\<lparr>last_active := time_time clk\<rparr>) (map_of (sessions self) u)
      else map_of (sessions self) v)"
  by (auto simp: update_last_active_def map_of_map_entry split: option.splits)

lemma update_last_active_fields:
  "filesystem_mcp_name (update_last_active clk self u) = filesystem_mcp_name self"
  "self_workspace_root (update_last_active clk self u) = self_workspace_root self"
  "self_mcp_configs (update_last_active clk self u) = self_mcp_configs self"
  by (simp_all add: update_last_active_def)

text \<open>
  C9. Closing is idempotent and touching is absent-safe: for a username with no session,
  \<open>close_session\<close> and \<open>update_last_active\<close> return the manager as it was and raise
  nothing; a closed username is absent, so closing it again changes nothing; and
  \<open>logout\<close> answers with its success body for every manager and username.
\<close>

theorem close_idempotent_touch_absent_safe:
  "(get_session self uname = None \<longrightarrow>
      close_session self uname = self
    \<and> update_last_active clk self uname = self
    \<and> logout self uname = (self, Response (LogoutBody (''user '' @ uname @ '' logged out''))))
   \<and> get_session (close_session self uname) uname = None
   \<and> close_session (close_session self uname) uname = close_session self uname
   \<and> logout self uname =
       (close_session self uname, Response (LogoutBody (''user '' @ uname @ '' logged out'')))"
  by (simp add: get_session_def close_session_lookup close_session_absent logout_def
      update_last_active_def)

theorem close_idempotent_touch_absent_safe_witness:
  "get_session init_manager ''bob'' = None
   \<and> close_session init_manager ''bob'' = init_manager
   \<and> update_last_active (clock_at 3) init_manager ''bob'' = init_manager
   \<and> snd (logout init_manager ''bob'') = Response (LogoutBody ''user bob logged out'')"
  using close_idempotent_touch_absent_safe [of init_manager "''bob''" "clock_at 3"]
  by (simp add: get_session_def init_manager_def)

section \<open>Session creation\<close>

lemma stamp_server_cong:
  "filesystem_mcp_name a = filesystem_mcp_name b \<Longrightarrow> self_workspace_root a = self_workspace_root b
   \<Longrightarrow> stamp_server e a u t i = stamp_server e b u t i"
  by (simp add: stamp_server_def split: option.splits)

lemma stamp_all_cong:
  "filesystem_mcp_name a = filesystem_mcp_name b \<Longrightarrow> self_workspace_root a = self_workspace_root b
   \<Longrightarrow> stamp_all e a u t xs acc = stamp_all e b u t xs acc"
  by (induction xs arbitrary: acc) (simp_all add: stamp_server_cong [of a b] split: sum.splits)

lemma load_mcp_server_cong:
  "filesystem_mcp_name a = filesystem_mcp_name b \<Longrightarrow> self_workspace_root a = self_workspace_root b
   \<Longrightarrow> load_mcp_server e a u cs t = load_mcp_server e b u cs t"
  by (simp add: load_mcp_server_def stamp_all_cong [of a b] split: sum.splits)

lemma close_if_present:
  "(if map_of (sessions self) u \<noteq> None then close_session self u else self) = close_session self u"
  by (simp add: close_session_def)

lemma load_mcp_server_closed:
  "load_mcp_server e (close_session self u\<lparr>self_workspace_root := r, self_mcp_configs := c\<rparr>) v cs t
     = load_mcp_server e (self\<lparr>self_workspace_root := r\<rparr>) v cs t"
  by (rule load_mcp_server_cong) (simp_all add: close_session_fields)

lemma create_session_eq:
  "create_session e clk self uname cfg =
     (if api_key cfg = []
      then (close_session self uname, Inl (ValueError ''API key must not be empty''))
      else if model_name cfg = []
      then (close_session self uname, Inl (ValueError ''model name must not be empty''))
      else
        (case load_mcp_server e (self\<lparr>self_workspace_root := Some (workspace_root cfg)\<rparr>)
                uname (mcp_configs cfg) 100 of
           Inl ex \<Rightarrow>
             (close_session self uname
                \<lparr>self_workspace_root := Some (workspace_root cfg),
                   self_mcp_configs := mcp_configs cfg\<rparr>, Inl ex)
         | Inr mcp_server \<Rightarrow>
             (case agent_init e cfg mcp_server of
                Some ex \<Rightarrow>
                  (close_session self uname
                     \<lparr>self_workspace_root := Some (workspace_root cfg),
                        self_mcp_configs := mcp_configs cfg\<rparr>,
                   Inl (ValueError (''failed to create agent: '' @ str ex)))
              | None \<Rightarrow>
                  (close_session self uname
                     \<lparr>self_workspace_root := Some (workspace_root cfg),
                        self_mcp_configs := mcp_configs cfg,
                        sessions :=
                          AList.update uname
                            \<lparr>username = uname, agent_config = cfg,
                               agent = Some \<lparr>model = (model_name cfg, api_key cfg, base_url cfg),
                                             agent_system_prompt = system_prompt cfg,
                                             toolsets = mcp_server\<rparr>,
                               last_active = time_time clk, is_active = True,
                               history_context = Some []\<rparr>
                            (sessions (close_session self uname))\<rparr>,
                   Inr \<lparr>username = uname, agent_config = cfg,
                        agent = Some \<lparr>model = (model_name cfg, api_key cfg, base_url cfg),
                                      agent_system_prompt = system_prompt cfg,
                                      toolsets = mcp_server\<rparr>,
                        last_active = time_time clk, is_active = True,
                        history_context = Some []\<rparr>))))"
  unfolding create_session_def close_if_present Let_def create_agent_for_user_def
  by (simp add: load_mcp_server_closed split: sum.splits option.splits)

text \<open>
  C7. Session creation is all-or-nothing. When \<open>create_session\<close> returns a session, that
  session is the one registered under the username, with empty history, the current time
  as last activity and the active flag set. When it raises, whatever the failure, no
  session is registered under the username. It returns a session exactly when the two
  configuration checks pass, tool provisioning returns and the agent is built.
\<close>

theorem create_session_all_or_nothing:
  "(case create_session e clk self uname cfg of
      (self', Inr s) \<Rightarrow>
         get_session self' uname = Some s
       \<and> username s = uname \<and> agent_config s = cfg
       \<and> history_context s = Some [] \<and> last_active s = time_time clk \<and> is_active s
       \<and> agent s \<noteq> None
    | (self', Inl ex) \<Rightarrow> get_session self' uname = None)
   \<and> ((\<exists>self' s. create_session e clk self uname cfg = (self', Inr s)) =
        (api_key cfg \<noteq> [] \<and> model_name cfg \<noteq> [] \<and>
         (\<exists>mcp_server.
            load_mcp_server e (self\<lparr>self_workspace_root := Some (workspace_root cfg)\<rparr>)
              uname (mcp_configs cfg) 100 = Inr mcp_server
          \<and> agent_init e cfg mcp_server = None)))"
  by (auto simp add: create_session_eq get_session_def update_conv' close_session_lookup
      split: sum.splits option.splits)

subsection \<open>The concrete deployment, evaluated\<close>

lemma demo_config_eq:
  "demo_config =
     \<lparr>model_name = ''deepseek-chat'', api_key = ''sk'', base_url = None,
      system_prompt = ''be kind'', workspace_root = ''/srv/workspace'',
      mcp_configs = [''./config/mcp_config_base.json'', ''./config/mcp_config_office.json'']\<rparr>"
  by (simp add: demo_config_def login_agent_config_def demo_login_def demo_env_def
      login_mcp_configs_def)

lemma demo_env_fields:
  "load_mcp_servers demo_env = demo_load [map_server]"
  "makedirs demo_env = (\<lambda>path. None)"
  "agent_init demo_env = (\<lambda>cfg servers. None)"
  "agent_run demo_env = echo_run"
  "psycopg2_connect demo_env = None"
  "user_login_table demo_env = [(''alice'', ''pw''), (''admin'', ''pw'')]"
  "abspath_workspace demo_env = ''/srv/workspace''"
  by (simp_all add: demo_env_def)

lemma demo_provision:
  "load_mcp_servers e = demo_load ms \<Longrightarrow> makedirs e = (\<lambda>path. None) \<Longrightarrow>
   filesystem_mcp_name self = ''@modelcontextprotocol/server-filesystem'' \<Longrightarrow>
   load_mcp_server e (self\<lparr>self_workspace_root := Some ''/srv/workspace''\<rparr>) ''alice''
     [''./config/mcp_config_base.json'', ''./config/mcp_config_office.json''] 100
   = Inr (toolsets alice_agent)"
  by (simp add: load_mcp_server_def demo_load_def stamp_server_def fs_server_def
      word_server_def alice_agent_def)

lemma rejecting_env_fields:
  "load_mcp_servers rejecting_env = demo_load [map_server]"
  "makedirs rejecting_env = (\<lambda>path. None)"
  "agent_init rejecting_env = (\<lambda>cfg servers. Some (Exception ''invalid api key''))"
  by (simp_all add: rejecting_env_def demo_env_def)

lemma demo_create:
  "create_session demo_env (clock_at t) init_manager ''alice'' demo_config =
     (\<lparr>sessions = [(''alice'', alice_session\<lparr>last_active := t\<rparr>)],
      filesystem_mcp_name = ''@modelcontextprotocol/server-filesystem'',
      self_workspace_root = Some ''/srv/workspace'',
      self_mcp_configs = [''./config/mcp_config_base.json'', ''./config/mcp_config_office.json'']\<rparr>,
      Inr (alice_session\<lparr>last_active := t\<rparr>))"
  using demo_provision [where self = init_manager and e = demo_env]
  by (simp add: create_session_eq demo_config_eq init_manager_def close_session_def
      clock_at_def alice_session_def alice_agent_def demo_env_fields)

lemma alice_manager_eq:
  "alice_manager =
     \<lparr>sessions = [(''alice'', alice_session)],
      filesystem_mcp_name = ''@modelcontextprotocol/server-filesystem'',
      self_workspace_root = Some ''/srv/workspace'',
      self_mcp_configs = [''./config/mcp_config_base.json'', ''./config/mcp_config_office.json'']\<rparr>"
  using demo_create [of 0]
  by (simp add: alice_manager_def login_def connect_db_def validate_login_def
      get_session_def demo_config_def [symmetric] demo_env_fields)
     (simp add: demo_login_def init_manager_def alice_session_def)

theorem create_session_all_or_nothing_witness:
  "(\<exists>self' s. create_session demo_env (clock_at 7) init_manager ''alice'' demo_config = (self', Inr s)
       \<and> get_session self' ''alice'' = Some s \<and> history_context s = Some [] \<and> last_active s = 7)
   \<and> (\<exists>self' ex. create_session rejecting_env (clock_at 7) alice_manager ''alice'' demo_config = (self', Inl ex)
       \<and> get_session alice_manager ''alice'' \<noteq> None \<and> get_session self' ''alice'' = None)"
  using create_session_all_or_nothing [where e = demo_env and clk = "clock_at 7"
      and self = init_manager and uname = "''alice''" and cfg = demo_config]
    create_session_all_or_nothing [where e = rejecting_env and clk = "clock_at 7"
      and self = alice_manager and uname = "''alice''" and cfg = demo_config]
    demo_provision [where self = alice_manager and e = rejecting_env]
  by (simp add: demo_create)
     (simp add: create_session_eq rejecting_env_fields alice_manager_eq demo_config_eq
       get_session_def close_session_def)

section \<open>Chat\<close>

lemma map_entry_ident: "AList.map_entry k (\<lambda>v. v) xs = xs"
  by (induction xs) auto

lemma chat_eq:
  assumes "get_session self (msg_username um) = Some s" and "agent s = Some ag"
  shows "chat e clk self um =
     (case agent_run e ag (message um) (history_context s) of
        Inl ex \<Rightarrow>
          (update_last_active clk self (msg_username um),
           HTTPException 500 (''agent processing error: '' @ str ex))
      | Inr (all_messages, output) \<Rightarrow>
          (update_last_active clk self (msg_username um)
             \<lparr>sessions :=
                AList.map_entry (msg_username um) (\<lambda>s. s\<lparr>history_context := Some all_messages\<rparr>)
                  (sessions (update_last_active clk self (msg_username um)))\<rparr>,
           Response (AgentResponse output (datetime_now clk))))"
  using assms
  by (simp add: chat_def chat_begin_def chat_resume_def map_entry_ident split: sum.splits)

lemma chat_absent:
  "get_session self (msg_username um) = None \<Longrightarrow>
   chat e clk self um = (self, HTTPException 404 ''user session does not exist, log in again'')"
  by (simp add: chat_def chat_begin_def)

lemma get_session_touch:
  "get_session (update_last_active clk self u) v =
     (if v = u then map_option (\<lambda>s. s\<lparr>last_active := time_time clk\<rparr>) (get_session self u)
      else get_session self v)"
  by (simp add: get_session_def update_last_active_lookup)

lemma get_session_set_history:
  "get_session (self\<lparr>sessions := AList.map_entry u f (sessions self)\<rparr>) v =
     (if v = u then map_option f (get_session self u) else get_session self v)"
  by (auto simp add: get_session_def map_of_map_entry split: option.splits)

text \<open>
  C2. For a session with an agent, a chat call whose backend invocation fails answers
  500 with the backend's error, leaves the session registered with its history exactly
  as it was and its last activity set to the current time, and the next chat call on it
  reaches the backend with that same history. A chat call whose backend invocation
  succeeds sets last activity to the current time as well, and stores the returned
  message list.
\<close>

theorem chat_failure_keeps_history:
  assumes "get_session self (msg_username um) = Some s" and "agent s = Some ag"
  shows "case agent_run e ag (message um) (history_context s) of
      Inl ex \<Rightarrow>
          chat e clk self um =
            (update_last_active clk self (msg_username um),
             HTTPException 500 (''agent processing error: '' @ str ex))
        \<and> get_session (fst (chat e clk self um)) (msg_username um)
            = Some (s\<lparr>last_active := time_time clk\<rparr>)
        \<and> (\<forall>e2 clk2 msg2.
              snd (chat e2 clk2 (fst (chat e clk self um))
                     \<lparr>msg_username = msg_username um, message = msg2\<rparr>) =
              (case agent_run e2 ag msg2 (history_context s) of
                 Inl ex2 \<Rightarrow> HTTPException 500 (''agent processing error: '' @ str ex2)
               | Inr (all_messages, output) \<Rightarrow>
                   Response (AgentResponse output (datetime_now clk2))))
    | Inr (all_messages, output) \<Rightarrow>
          snd (chat e clk self um) = Response (AgentResponse output (datetime_now clk))
        \<and> get_session (fst (chat e clk self um)) (msg_username um)
            = Some (s\<lparr>last_active := time_time clk, history_context := Some all_messages\<rparr>)"
proof (cases "agent_run e ag (message um) (history_context s)")
  case (Inl ex)
  let ?self' = "update_last_active clk self (msg_username um)"
  have c: "chat e clk self um =
      (?self', HTTPException 500 (''agent processing error: '' @ str ex))"
    using chat_eq [OF assms, of e clk] Inl by simp
  have g: "get_session ?self' (msg_username um) = Some (s\<lparr>last_active := time_time clk\<rparr>)"
    using assms(1) by (simp add: get_session_touch)
  have n: "snd (chat e2 clk2 ?self' \<lparr>msg_username = msg_username um, message = msg2\<rparr>) =
              (case agent_run e2 ag msg2 (history_context s) of
                 Inl ex2 \<Rightarrow> HTTPException 500 (''agent processing error: '' @ str ex2)
               | Inr (all_messages, output) \<Rightarrow>
                   Response (AgentResponse output (datetime_now clk2)))" for e2 clk2 msg2
    using chat_eq [where self = ?self' and um = "\<lparr>msg_username = msg_username um, message = msg2\<rparr>"
        and s = "s\<lparr>last_active := time_time clk\<rparr>" and ag = ag and e = e2 and clk = clk2]
      g assms(2)
    by (simp split: sum.splits)
  from c g n Inl show ?thesis by simp
next
  case (Inr res)
  obtain all_messages out where res: "res = (all_messages, out)" by (cases res)
  show ?thesis
    using chat_eq [OF assms, of e clk] Inr res assms(1)
    by (simp add: get_session_set_history get_session_touch)
qed

lemma down_env_run: "agent_run down_env = (\<lambda>ag msg h. Inl (Exception ''timed out''))"
  by (simp add: down_env_def)

theorem chat_failure_keeps_history_witness:
  "get_session alice_manager ''alice'' = Some alice_session
   \<and> agent alice_session = Some alice_agent
   \<and> snd (chat down_env (clock_at 9) alice_manager (says ''alice'' ''hi''))
       = HTTPException 500 ''agent processing error: timed out''
   \<and> get_session (fst (chat down_env (clock_at 9) alice_manager (says ''alice'' ''hi''))) ''alice''
       = Some (alice_session\<lparr>last_active := 9\<rparr>)
   \<and> history_context alice_session = Some []"
proof -
  have g: "get_session alice_manager (msg_username (says ''alice'' ''hi'')) = Some alice_session"
    by (simp add: alice_manager_eq get_session_def says_def)
  have a: "agent alice_session = Some alice_agent" by (simp add: alice_session_def)
  show ?thesis
    using chat_failure_keeps_history [OF g a, of down_env "clock_at 9"] g a
    by (simp add: down_env_run says_def clock_at_def alice_session_def get_session_touch)
qed

lemma chat_manager_cases:
  "fst (chat e clk self um) = self
   \<or> fst (chat e clk self um) = update_last_active clk self (msg_username um)
   \<or> (\<exists>h. fst (chat e clk self um) =
          update_last_active clk self (msg_username um)
            \<lparr>sessions := AList.map_entry (msg_username um) (\<lambda>s. s\<lparr>history_context := h\<rparr>)
               (sessions (update_last_active clk self (msg_username um)))\<rparr>)"
  by (auto simp add: chat_def chat_begin_def chat_resume_def map_entry_ident
      split: option.splits sum.splits prod.splits)

lemma chat_frame:
  "filesystem_mcp_name (fst (chat e clk self um)) = filesystem_mcp_name self
   \<and> self_workspace_root (fst (chat e clk self um)) = self_workspace_root self
   \<and> self_mcp_configs (fst (chat e clk self um)) = self_mcp_configs self
   \<and> (v \<noteq> msg_username um \<longrightarrow> get_session (fst (chat e clk self um)) v = get_session self v)"
  using chat_manager_cases [of e clk self um]
  by (auto simp add: update_last_active_fields get_session_set_history get_session_touch)


section \<open>The idle sweep\<close>

lemma inactive_users_acc:
  "inactive_users t T xs acc =
     acc @ map fst (filter (\<lambda>(u, s). t - last_active s > real_of_int T) xs)"
  by (induction xs arbitrary: acc) auto

lemma close_sessions_sessions:
  "sessions (close_sessions self us) = filter (\<lambda>p. fst p \<notin> set us) (sessions self)"
proof (induction us arbitrary: self)
  case Nil
  then show ?case by simp
next
  case (Cons u us)
  show ?case
    by (simp add: Cons.IH close_session_sessions conj_commute)
qed

lemma close_sessions_fields:
  "filesystem_mcp_name (close_sessions self us) = filesystem_mcp_name self"
  "self_workspace_root (close_sessions self us) = self_workspace_root self"
  "self_mcp_configs (close_sessions self us) = self_mcp_configs self"
  by (induction us arbitrary: self) (simp_all add: close_session_fields)

lemma filter_keys_distinct:
  assumes "distinct (map fst xs)"
  shows "filter (\<lambda>p. fst p \<notin> set (map fst (filter P xs))) xs = filter (\<lambda>p. \<not> P p) xs"
proof (rule filter_cong [OF refl])
  fix p assume p: "p \<in> set xs"
  have "fst p \<in> set (map fst (filter P xs)) \<longleftrightarrow> P p"
  proof
    assume "fst p \<in> set (map fst (filter P xs))"
    then obtain q where q: "q \<in> set xs" "P q" "fst q = fst p" by auto
    from assms p q(1) q(3) have "q = p"
      by (metis eq_key_imp_eq_value prod.collapse)
    with q(2) show "P p" by simp
  next
    assume "P p"
    with p show "fst p \<in> set (map fst (filter P xs))" by force
  qed
  then show "(fst p \<notin> set (map fst (filter P xs))) = (\<not> P p)" by simp
qed

lemma cleanup_sessions:
  assumes "distinct (map fst (sessions self))"
  shows "sessions (cleanup_inactive_sessions clk self T) =
     filter (\<lambda>(u, s). \<not> (time_time clk - last_active s > real_of_int T)) (sessions self)"
  using filter_keys_distinct [OF assms,
      of "\<lambda>(u, s). time_time clk - last_active s > real_of_int T"]
  by (simp add: cleanup_inactive_sessions_def inactive_users_acc close_sessions_sessions
      case_prod_unfold)

lemma map_of_filter_distinct:
  assumes "distinct (map fst xs)"
  shows "map_of (filter P xs) k =
     (case map_of xs k of None \<Rightarrow> None | Some v \<Rightarrow> if P (k, v) then Some v else None)"
  using assms
proof (induction xs)
  case Nil
  then show ?case by simp
next
  case (Cons x xs)
  obtain a b where x: "x = (a, b)" by (cases x)
  from Cons.prems x have notin: "a \<notin> fst ` set xs" by simp
  then have "map_of xs a = None" by (simp add: map_of_eq_None_iff)
  with Cons x show ?case by (auto split: option.splits)
qed

text \<open>
  C4. In a store whose usernames are distinct, as a dict's keys are, a sweep with
  threshold \<open>T\<close> leaves exactly the sessions whose age \<open>now - last_active\<close> is not greater
  than \<open>T\<close>, in their order and unchanged, and nothing else of the manager changes. A
  session whose age is greater than \<open>T\<close> is gone and a chat call for its username
  answers 404; a session whose age is at most \<open>T\<close> is still registered as it was.
\<close>

theorem reap_idle_exact:
  assumes "distinct (map fst (sessions self))"
  shows "sessions (cleanup_inactive_sessions clk self T) =
           filter (\<lambda>(u, s). \<not> (time_time clk - last_active s > real_of_int T)) (sessions self)
       \<and> filesystem_mcp_name (cleanup_inactive_sessions clk self T) = filesystem_mcp_name self
       \<and> self_workspace_root (cleanup_inactive_sessions clk self T) = self_workspace_root self
       \<and> self_mcp_configs (cleanup_inactive_sessions clk self T) = self_mcp_configs self
       \<and> (\<forall>u s. get_session self u = Some s \<longrightarrow>
             (if time_time clk - last_active s > real_of_int T
              then get_session (cleanup_inactive_sessions clk self T) u = None
                 \<and> (\<forall>e clk2 msg.
                       chat e clk2 (cleanup_inactive_sessions clk self T)
                         \<lparr>msg_username = u, message = msg\<rparr> =
                       (cleanup_inactive_sessions clk self T,
                        HTTPException 404 ''user session does not exist, log in again''))
              else get_session (cleanup_inactive_sessions clk self T) u = Some s))
       \<and> (\<forall>u. get_session self u = None \<longrightarrow>
             get_session (cleanup_inactive_sessions clk self T) u = None)"
proof -
  let ?self' = "cleanup_inactive_sessions clk self T"
  have s: "sessions ?self' =
      filter (\<lambda>(u, s). \<not> (time_time clk - last_active s > real_of_int T)) (sessions self)"
    by (rule cleanup_sessions [OF assms])
  have g: "get_session ?self' u =
      (case get_session self u of None \<Rightarrow> None
       | Some s \<Rightarrow> if time_time clk - last_active s > real_of_int T then None else Some s)" for u
    unfolding get_session_def s
    by (simp add: map_of_filter_distinct [OF assms] split: option.splits)
  have f: "filesystem_mcp_name ?self' = filesystem_mcp_name self"
    "self_workspace_root ?self' = self_workspace_root self"
    "self_mcp_configs ?self' = self_mcp_configs self"
    by (simp_all add: cleanup_inactive_sessions_def close_sessions_fields)
  have c: "get_session ?self' u = None \<Longrightarrow>
      chat e clk2 ?self' \<lparr>msg_username = u, message = msg\<rparr> =
        (?self', HTTPException 404 ''user session does not exist, log in again'')" for u e clk2 msg
    by (simp add: chat_absent)
  show ?thesis
    using s f c by (simp add: g)
qed

theorem reap_idle_exact_witness:
  "distinct (map fst (sessions two_manager))
   \<and> sessions (cleanup_task (clock_at 1900) two_manager) = [(''bob'', bob_session)]
   \<and> time_time (clock_at 1900) - last_active alice_session > 1800
   \<and> time_time (clock_at 1900) - last_active bob_session = 1800
   \<and> snd (chat demo_env (clock_at 1901) (cleanup_task (clock_at 1900) two_manager)
             (says ''alice'' ''hi''))
       = HTTPException 404 ''user session does not exist, log in again''"
proof -
  let ?self' = "cleanup_inactive_sessions (clock_at 1900) two_manager 1800"
  have d: "distinct (map fst (sessions two_manager))" by (simp add: two_manager_def)
  have a: "get_session two_manager ''alice'' = Some alice_session"
    by (simp add: get_session_def two_manager_def)
  have old: "time_time (clock_at 1900) - last_active alice_session > real_of_int 1800"
    by (simp add: clock_at_def alice_session_def)
  have edge: "time_time (clock_at 1900) - last_active bob_session = 1800"
    by (simp add: clock_at_def alice_session_def bob_session_def)
  note t = reap_idle_exact [OF d, of "clock_at 1900" 1800]
  from t have s: "sessions ?self' =
      filter (\<lambda>(u, s). \<not> (time_time (clock_at 1900) - last_active s > real_of_int 1800))
        (sessions two_manager)"
    by (rule conjunct1)
  have s': "sessions ?self' = [(''bob'', bob_session)]"
    unfolding s by (simp add: two_manager_def clock_at_def alice_session_def bob_session_def)
  from t have "\<forall>u s. get_session two_manager u = Some s \<longrightarrow>
             (if time_time (clock_at 1900) - last_active s > real_of_int 1800
              then get_session ?self' u = None
                 \<and> (\<forall>e clk2 msg.
                       chat e clk2 ?self' \<lparr>msg_username = u, message = msg\<rparr> =
                       (?self', HTTPException 404 ''user session does not exist, log in again''))
              else get_session ?self' u = Some s)"
    by blast
  with a old have "chat demo_env (clock_at 1901) ?self' \<lparr>msg_username = ''alice'', message = ''hi''\<rparr> =
       (?self', HTTPException 404 ''user session does not exist, log in again'')"
    by simp
  then have c: "snd (chat demo_env (clock_at 1901) ?self' (says ''alice'' ''hi''))
       = HTTPException 404 ''user session does not exist, log in again''"
    by (simp add: says_def)
  from d s' old edge c show ?thesis
    by (simp add: cleanup_task_def)
qed

section \<open>Tool provisioning\<close>

lemma load_configs_all:
  "map (load_mcp_servers e) configs = map Inr specs \<Longrightarrow>
   load_configs e configs acc = Inr (acc @ concat specs)"
proof (induction configs arbitrary: specs acc)
  case Nil
  then show ?case by simp
next
  case (Cons c cs)
  from Cons.prems obtain sp rest where specs: "specs = sp # rest"
    and c: "load_mcp_servers e c = Inr sp"
    and cs: "map (load_mcp_servers e) cs = map Inr rest"
    by (cases specs) auto
  show ?case using Cons.IH [OF cs, of "acc @ sp"] c specs by simp
qed

lemma stamp_server_provisioned:
  assumes "is_filesystem_tool (filesystem_mcp_name self) i \<longrightarrow>
             (\<exists>as. args i = Some as \<and> length as > 2)
           \<and> self_workspace_root self = Some wroot
           \<and> makedirs e (wroot @ ''/workspace_'' @ uname) = None"
  shows "stamp_server e self uname t i = Inr (provisioned (filesystem_mcp_name self) wroot uname t i)"
  using assms
  by (auto simp add: stamp_server_def provisioned_def is_filesystem_tool_def Let_def
      split: option.splits)

lemma stamp_all_provisioned:
  assumes "\<forall>i \<in> set xs. is_filesystem_tool (filesystem_mcp_name self) i \<longrightarrow>
             (\<exists>as. args i = Some as \<and> length as > 2)
           \<and> self_workspace_root self = Some wroot
           \<and> makedirs e (wroot @ ''/workspace_'' @ uname) = None"
  shows "stamp_all e self uname t xs acc =
           Inr (acc @ map (provisioned (filesystem_mcp_name self) wroot uname t) xs)"
  using assms
proof (induction xs arbitrary: acc)
  case Nil
  then show ?case by simp
next
  case (Cons i xs)
  have i: "stamp_server e self uname t i =
      Inr (provisioned (filesystem_mcp_name self) wroot uname t i)"
    by (rule stamp_server_provisioned) (use Cons.prems in simp)
  have rest: "\<forall>i \<in> set xs. is_filesystem_tool (filesystem_mcp_name self) i \<longrightarrow>
             (\<exists>as. args i = Some as \<and> length as > 2)
           \<and> self_workspace_root self = Some wroot
           \<and> makedirs e (wroot @ ''/workspace_'' @ uname) = None"
    using Cons.prems by simp
  show ?case using Cons.IH [OF rest] i by simp
qed

text \<open>
  Provisioning where it returns. When every source loads, and every loaded spec that is
  a filesystem tool has a third argument, with the manager's workspace root set and the
  sandbox directory creatable, provisioning returns the sources' specs concatenated in
  source order, duplicates kept, each with the timeout stamped on it, the filesystem
  tools with their third argument replaced by \<open>{workspace_root}/workspace_{username}\<close>
  and every other spec unchanged apart from the timeout.
\<close>

theorem provisioning_concatenates_and_rewrites:
  assumes "map (load_mcp_servers e) configs = map Inr specs"
    and "\<forall>i \<in> set (concat specs). is_filesystem_tool (filesystem_mcp_name self) i \<longrightarrow>
             (\<exists>as. args i = Some as \<and> length as > 2)
           \<and> self_workspace_root self = Some wroot
           \<and> makedirs e (wroot @ ''/workspace_'' @ uname) = None"
  shows "load_mcp_server e self uname configs t =
           Inr (map (provisioned (filesystem_mcp_name self) wroot uname t) (concat specs))"
  using load_configs_all [OF assms(1), of "[]"] stamp_all_provisioned [OF assms(2), of t "[]"]
  by (simp add: load_mcp_server_def)

theorem provisioning_concatenates_and_rewrites_witness:
  "map (load_mcp_servers demo_env)
     [''./config/mcp_config_base.json'', ''./config/mcp_config_map.json'',
      ''./config/mcp_config_base.json'']
     = map Inr [[fs_server], [map_server], [fs_server]]
   \<and> load_mcp_server demo_env alice_manager ''alice''
       [''./config/mcp_config_base.json'', ''./config/mcp_config_map.json'',
        ''./config/mcp_config_base.json''] 30
     = Inr [fs_server\<lparr>args := Some [''-y'', ''@modelcontextprotocol/server-filesystem'',
                                     ''/srv/workspace/workspace_alice''], timeout := 30\<rparr>,
            map_server\<lparr>timeout := 30\<rparr>,
            fs_server\<lparr>args := Some [''-y'', ''@modelcontextprotocol/server-filesystem'',
                                     ''/srv/workspace/workspace_alice''], timeout := 30\<rparr>]"
proof -
  have l: "map (load_mcp_servers demo_env)
     [''./config/mcp_config_base.json'', ''./config/mcp_config_map.json'',
      ''./config/mcp_config_base.json'']
     = map Inr [[fs_server], [map_server], [fs_server]]"
    by (simp add: demo_env_fields demo_load_def)
  have f: "\<forall>i \<in> set (concat [[fs_server], [map_server], [fs_server]]).
       is_filesystem_tool (filesystem_mcp_name alice_manager) i \<longrightarrow>
             (\<exists>as. args i = Some as \<and> length as > 2)
           \<and> self_workspace_root alice_manager = Some ''/srv/workspace''
           \<and> makedirs demo_env (''/srv/workspace'' @ ''/workspace_'' @ ''alice'') = None"
    by (simp add: alice_manager_eq demo_env_fields fs_server_def map_server_def
        is_filesystem_tool_def)
  show ?thesis
    using provisioning_concatenates_and_rewrites [OF l f, of 30] l
    by (simp add: provisioned_def is_filesystem_tool_def alice_manager_eq fs_server_def
        map_server_def)
qed

text \<open>
  C5, at a filesystem tool configured with two arguments. The guard of the rewrite,
  \<open>len(i.args) > 1\<close>, covers the read of the second argument and not the write of the
  third. The spec passes the guard, the sandbox directory is made, and the assignment
  raises IndexError: provisioning returns no list, where C5 has every spec returned and
  the filesystem tool's root argument set to the user's sandbox path.
\<close>

theorem provisioning_short_filesystem_spec_raises:
  "load_mcp_servers short_env ''./config/mcp_config_base.json'' = Inr [short_fs_server]
   \<and> is_filesystem_tool (filesystem_mcp_name alice_manager) short_fs_server
   \<and> self_workspace_root alice_manager = Some ''/srv/workspace''
   \<and> makedirs short_env ''/srv/workspace/workspace_alice'' = None
   \<and> stamp_server short_env alice_manager ''alice'' 100 short_fs_server
       = Inl (IndexError ''list assignment index out of range'')
   \<and> load_mcp_server short_env alice_manager ''alice'' [''./config/mcp_config_base.json''] 100
       = Inl (IndexError ''list assignment index out of range'')"
  by (simp add: short_env_def demo_env_def short_fs_server_def is_filesystem_tool_def
      alice_manager_eq load_mcp_server_def stamp_server_def)

section \<open>Login\<close>

lemma close_session_twice: "close_session (close_session self u) u = close_session self u"
  by (simp add: close_session_absent close_session_lookup)

lemma create_session_after_close:
  "create_session e clk (close_session self u) u cfg = create_session e clk self u cfg"
proof -
  have l: "load_mcp_server e (close_session self u\<lparr>self_workspace_root := r\<rparr>) u cs t =
      load_mcp_server e (self\<lparr>self_workspace_root := r\<rparr>) u cs t" for r cs t
    by (rule load_mcp_server_cong) (simp_all add: close_session_fields)
  show ?thesis
    unfolding create_session_eq l close_session_twice by (rule refl)
qed

lemma login_preclose:
  "create_session e clk
     (case get_session self u of
        None \<Rightarrow> self
      | Some existing_session \<Rightarrow>
          if is_active existing_session then close_session self u else self) u cfg
   = create_session e clk self u cfg"
  by (simp add: create_session_after_close split: option.splits)

lemma login_authenticated:
  assumes "login_username user \<noteq> []" and "login_model_name user \<noteq> []"
    and "login_api_key user \<noteq> []" and "login_system_prompt user \<noteq> []"
    and "psycopg2_connect e = None"
    and "validate_login e (login_username user) (login_password user) = (True, True)"
  shows "login e clk self user =
     (case create_session e clk self (login_username user) (login_agent_config e user) of
        (self2, Inr session) \<Rightarrow>
          (self2, Response (LoginBody (''user '' @ login_username user @ '' logged in'')
                     True (datetime_now clk)))
      | (self2, Inl (ValueError msg)) \<Rightarrow> (self2, HTTPException 400 msg)
      | (self2, Inl ex) \<Rightarrow>
          (self2, HTTPException 500 (''failed to create session: '' @ str ex)))"
  using assms
  by (simp add: login_def connect_db_def Let_def login_preclose
      split: prod.splits sum.splits exn.splits)

lemma login_Response_passed:
  assumes "login e clk self user = (self', Response b)"
  shows "login_username user \<noteq> [] \<and> login_model_name user \<noteq> []
       \<and> login_api_key user \<noteq> [] \<and> login_system_prompt user \<noteq> []
       \<and> psycopg2_connect e = None
       \<and> validate_login e (login_username user) (login_password user) = (True, True)"
  using assms
  by (auto simp add: login_def connect_db_def Let_def
      split: if_splits option.splits sum.splits prod.splits)

lemma login_Response:
  assumes "login e clk self user = (self', Response b)"
  shows "\<exists>s. create_session e clk self (login_username user) (login_agent_config e user)
            = (self', Inr s)"
proof -
  from login_Response_passed [OF assms]
  have "login e clk self user =
     (case create_session e clk self (login_username user) (login_agent_config e user) of
        (self2, Inr session) \<Rightarrow>
          (self2, Response (LoginBody (''user '' @ login_username user @ '' logged in'')
                     True (datetime_now clk)))
      | (self2, Inl (ValueError msg)) \<Rightarrow> (self2, HTTPException 400 msg)
      | (self2, Inl ex) \<Rightarrow>
          (self2, HTTPException 500 (''failed to create session: '' @ str ex)))"
    by (intro login_authenticated) simp_all
  with assms show ?thesis
    by (auto split: prod.splits sum.splits exn.splits)
qed

lemma login_missing_field:
  assumes "login_username user = [] \<or> login_model_name user = []
         \<or> login_api_key user = [] \<or> login_system_prompt user = []"
  shows "\<exists>detail. login e clk self user = (self, HTTPException 400 detail)"
  using assms by (auto simp add: login_def Let_def)

lemma login_database_down:
  assumes "login_username user \<noteq> []" and "login_model_name user \<noteq> []"
    and "login_api_key user \<noteq> []" and "login_system_prompt user \<noteq> []"
    and "psycopg2_connect e = Some dberr"
  shows "login e clk self user = (self, HTTPException 500 ''Internal Server Error'')"
  using assms by (simp add: login_def connect_db_def)

lemma login_not_authenticated:
  assumes "login_username user \<noteq> []" and "login_model_name user \<noteq> []"
    and "login_api_key user \<noteq> []" and "login_system_prompt user \<noteq> []"
    and "psycopg2_connect e = None"
    and "validate_login e (login_username user) (login_password user) \<noteq> (True, True)"
  shows "\<exists>detail. login e clk self user = (self, HTTPException 400 detail)"
  using assms
  by (cases "validate_login e (login_username user) (login_password user)")
     (auto simp add: login_def connect_db_def)

lemma login_after_authentication:
  assumes "login_username user \<noteq> []" and "login_model_name user \<noteq> []"
    and "login_api_key user \<noteq> []" and "login_system_prompt user \<noteq> []"
    and "psycopg2_connect e = None"
    and "validate_login e (login_username user) (login_password user) = (True, True)"
  shows "case load_mcp_server e (self\<lparr>self_workspace_root := Some (abspath_workspace e)\<rparr>)
               (login_username user) (login_mcp_configs (login_username user)) 100 of
           Inl ex \<Rightarrow>
             snd (login e clk self user) =
               (case ex of
                  ValueError msg \<Rightarrow> HTTPException 400 msg
                | _ \<Rightarrow> HTTPException 500 (''failed to create session: '' @ str ex))
         | Inr mcp_server \<Rightarrow>
             (case agent_init e (login_agent_config e user) mcp_server of
                Some ex \<Rightarrow>
                  snd (login e clk self user) =
                    HTTPException 400 (''failed to create agent: '' @ str ex)
                \<and> get_session (fst (login e clk self user)) (login_username user) = None
              | None \<Rightarrow>
                  snd (login e clk self user) =
                    Response (LoginBody (''user '' @ login_username user @ '' logged in'')
                                True (datetime_now clk)))"
proof -
  have cfg: "api_key (login_agent_config e user) \<noteq> []"
    "model_name (login_agent_config e user) \<noteq> []"
    "workspace_root (login_agent_config e user) = abspath_workspace e"
    "mcp_configs (login_agent_config e user) = login_mcp_configs (login_username user)"
    using assms by (simp_all add: login_agent_config_def)
  show ?thesis
    unfolding login_authenticated [OF assms] create_session_eq
    by (simp add: cfg get_session_def close_session_lookup
        split: sum.splits option.splits exn.splits)
qed

text \<open>
  C3, as amended. A login request with an empty field is answered 400. With all fields
  given, a database connection failure is answered 500 and an authentication failure
  400. For a request that passes field validation and authentication: when tool
  provisioning returns and agent construction fails, \<open>create_session\<close> re-raises the
  failure as a ValueError and \<open>login\<close> answers 400 with the builder's message, no
  session being registered; when tool provisioning raises, \<open>login\<close> answers 400 for a
  ValueError and 500 for any other exception; otherwise it answers with the success body.
\<close>

theorem login_agent_build_failure_is_400:
  "if login_username user = [] \<or> login_model_name user = []
      \<or> login_api_key user = [] \<or> login_system_prompt user = []
   then \<exists>detail. login e clk self user = (self, HTTPException 400 detail)
   else
     (case psycopg2_connect e of
        Some dberr \<Rightarrow> login e clk self user = (self, HTTPException 500 ''Internal Server Error'')
      | None \<Rightarrow>
          if validate_login e (login_username user) (login_password user) \<noteq> (True, True)
          then \<exists>detail. login e clk self user = (self, HTTPException 400 detail)
          else
            (case load_mcp_server e (self\<lparr>self_workspace_root := Some (abspath_workspace e)\<rparr>)
                    (login_username user) (login_mcp_configs (login_username user)) 100 of
               Inl ex \<Rightarrow>
                 snd (login e clk self user) =
                   (case ex of
                      ValueError msg \<Rightarrow> HTTPException 400 msg
                    | _ \<Rightarrow> HTTPException 500 (''failed to create session: '' @ str ex))
             | Inr mcp_server \<Rightarrow>
                 (case agent_init e (login_agent_config e user) mcp_server of
                    Some ex \<Rightarrow>
                      snd (login e clk self user) =
                        HTTPException 400 (''failed to create agent: '' @ str ex)
                    \<and> get_session (fst (login e clk self user)) (login_username user) = None
                  | None \<Rightarrow>
                      snd (login e clk self user) =
                        Response (LoginBody (''user '' @ login_username user @ '' logged in'')
                                    True (datetime_now clk)))))"
proof (cases "login_username user = [] \<or> login_model_name user = []
      \<or> login_api_key user = [] \<or> login_system_prompt user = []")
  case True
  with login_missing_field [OF True, where self = self and clk = clk and e = e] show ?thesis by simp
next
  case False
  then have f: "login_username user \<noteq> []" "login_model_name user \<noteq> []"
    "login_api_key user \<noteq> []" "login_system_prompt user \<noteq> []"
    by simp_all
  show ?thesis
  proof (cases "psycopg2_connect e")
    case (Some dberr)
    with False login_database_down [OF f Some, where self = self and clk = clk] show ?thesis by simp
  next
    case None
    show ?thesis
    proof (cases "validate_login e (login_username user) (login_password user) = (True, True)")
      case True
      with False None login_after_authentication [OF f None True, where self = self and clk = clk]
      show ?thesis by simp
    next
      case no: False
      with False None login_not_authenticated [OF f None no, where self = self and clk = clk]
      show ?thesis by simp
    qed
  qed
qed

lemma demo_validate:
  "validate_login rejecting_env ''alice'' ''pw'' = (True, True)"
  "validate_login demo_env ''alice'' ''pw'' = (True, True)"
  by (simp_all add: validate_login_def rejecting_env_def demo_env_def)

lemma demo_login_fields:
  "login_username (demo_login u p) = u"
  "login_password (demo_login u p) = p"
  "login_model_name (demo_login u p) = ''deepseek-chat''"
  "login_api_key (demo_login u p) = ''sk''"
  "login_system_prompt (demo_login u p) = ''be kind''"
  "login_base_url (demo_login u p) = None"
  by (simp_all add: demo_login_def)

lemma login_mcp_configs_alice:
  "login_mcp_configs ''alice'' =
     [''./config/mcp_config_base.json'', ''./config/mcp_config_office.json'']"
  by (simp add: login_mcp_configs_def)

lemma offline_env_fields:
  "psycopg2_connect offline_env = Some (Exception ''connection refused'')"
  by (simp add: offline_env_def)

lemma demo_validate_wrong:
  "validate_login demo_env ''alice'' ''nope'' = (True, False)"
  by (simp add: validate_login_def demo_env_def)

theorem login_agent_build_failure_is_400_witness:
  "snd (login rejecting_env (clock_at 5) init_manager (demo_login ''alice'' ''pw''))
       = HTTPException 400 ''failed to create agent: invalid api key''
   \<and> get_session (fst (login rejecting_env (clock_at 5) init_manager (demo_login ''alice'' ''pw'')))
         ''alice'' = None
   \<and> login offline_env (clock_at 5) init_manager (demo_login ''alice'' ''pw'')
       = (init_manager, HTTPException 500 ''Internal Server Error'')
   \<and> (\<exists>detail. login demo_env (clock_at 5) init_manager (demo_login ''alice'' ''nope'')
         = (init_manager, HTTPException 400 detail))
   \<and> (\<exists>detail. login demo_env (clock_at 5) init_manager (demo_login [] ''pw'')
         = (init_manager, HTTPException 400 detail))"
proof -
  have c: "psycopg2_connect rejecting_env = None"
    by (simp add: rejecting_env_def demo_env_def)
  have w: "abspath_workspace rejecting_env = ''/srv/workspace''"
    by (simp add: rejecting_env_def demo_env_def)
  have p: "load_mcp_server rejecting_env
       (init_manager\<lparr>self_workspace_root := Some ''/srv/workspace''\<rparr>) ''alice''
       [''./config/mcp_config_base.json'', ''./config/mcp_config_office.json''] 100
     = Inr (toolsets alice_agent)"
    by (rule demo_provision) (simp_all add: rejecting_env_fields init_manager_def)
  have build: "snd (login rejecting_env (clock_at 5) init_manager (demo_login ''alice'' ''pw''))
       = HTTPException 400 ''failed to create agent: invalid api key''
   \<and> get_session (fst (login rejecting_env (clock_at 5) init_manager (demo_login ''alice'' ''pw'')))
         ''alice'' = None"
    using login_agent_build_failure_is_400 [where e = rejecting_env
        and user = "demo_login ''alice'' ''pw''" and self = init_manager and clk = "clock_at 5"]
    by (simp add: demo_login_fields demo_validate c w p login_mcp_configs_alice
        rejecting_env_fields)
  have db: "login offline_env (clock_at 5) init_manager (demo_login ''alice'' ''pw'')
       = (init_manager, HTTPException 500 ''Internal Server Error'')"
    using login_agent_build_failure_is_400 [where e = offline_env
        and user = "demo_login ''alice'' ''pw''" and self = init_manager and clk = "clock_at 5"]
    by (simp add: demo_login_fields offline_env_fields)
  have auth: "\<exists>detail. login demo_env (clock_at 5) init_manager (demo_login ''alice'' ''nope'')
         = (init_manager, HTTPException 400 detail)"
    using login_agent_build_failure_is_400 [where e = demo_env
        and user = "demo_login ''alice'' ''nope''" and self = init_manager and clk = "clock_at 5"]
    by (simp add: demo_login_fields demo_env_fields demo_validate_wrong)
  have field: "\<exists>detail. login demo_env (clock_at 5) init_manager (demo_login [] ''pw'')
         = (init_manager, HTTPException 400 detail)"
    using login_agent_build_failure_is_400 [where e = demo_env
        and user = "demo_login [] ''pw''" and self = init_manager and clk = "clock_at 5"]
    by (simp add: demo_login_fields)
  from build db auth field show ?thesis by blast
qed

text \<open>
  C3 as stated fails: with a model client that rejects the credential, a login that
  passes validation and authentication is answered 400, not 500.
\<close>

theorem login_agent_build_failure_counterexample:
  "login_username (demo_login ''alice'' ''pw'') \<noteq> []
   \<and> validate_login rejecting_env ''alice'' ''pw'' = (True, True)
   \<and> agent_init rejecting_env (login_agent_config rejecting_env (demo_login ''alice'' ''pw''))
        (toolsets alice_agent) = Some (Exception ''invalid api key'')
   \<and> (\<exists>self' detail.
         login rejecting_env (clock_at 5) init_manager (demo_login ''alice'' ''pw'')
           = (self', HTTPException 400 detail))"
proof -
  have p: "load_mcp_server rejecting_env
       (init_manager\<lparr>self_workspace_root := Some ''/srv/workspace''\<rparr>) ''alice''
       [''./config/mcp_config_base.json'', ''./config/mcp_config_office.json''] 100
     = Inr (toolsets alice_agent)"
    by (rule demo_provision) (simp_all add: rejecting_env_fields init_manager_def)
  have c: "psycopg2_connect rejecting_env = None"
    by (simp add: rejecting_env_def demo_env_def)
  have w: "abspath_workspace rejecting_env = ''/srv/workspace''"
    by (simp add: rejecting_env_def demo_env_def)
  have v: "validate_login rejecting_env (login_username (demo_login ''alice'' ''pw''))
      (login_password (demo_login ''alice'' ''pw'')) = (True, True)"
    by (simp add: demo_login_fields demo_validate)
  have l: "login rejecting_env (clock_at 5) init_manager (demo_login ''alice'' ''pw'') =
       (close_session init_manager ''alice''
          \<lparr>self_workspace_root := Some ''/srv/workspace'',
             self_mcp_configs := [''./config/mcp_config_base.json'', ''./config/mcp_config_office.json'']\<rparr>,
        HTTPException 400 ''failed to create agent: invalid api key'')"
    unfolding login_authenticated [where e = rejecting_env
        and user = "demo_login ''alice'' ''pw''", OF _ _ _ _ c v, unfolded demo_login_fields, simplified]
      create_session_eq
    by (simp add: login_agent_config_def demo_login_fields w login_mcp_configs_alice p
        rejecting_env_fields)
  show ?thesis
    by (simp add: l demo_login_fields demo_validate rejecting_env_fields)
qed

section \<open>Repeated login\<close>

lemma create_session_Inr:
  assumes "create_session e clk self u cfg = (self', Inr s)"
  shows "get_session self' u = Some s \<and> username s = u \<and> agent_config s = cfg
       \<and> history_context s = Some [] \<and> last_active s = time_time clk \<and> is_active s
       \<and> (\<exists>ag. agent s = Some ag \<and> model ag = (model_name cfg, api_key cfg, base_url cfg)
               \<and> agent_system_prompt ag = system_prompt cfg
               \<and> load_mcp_server e (self\<lparr>self_workspace_root := Some (workspace_root cfg)\<rparr>)
                    u (mcp_configs cfg) 100 = Inr (toolsets ag))"
  using assms
  by (auto simp add: create_session_eq get_session_def update_conv'
      split: if_splits sum.splits option.splits)








section \<open>What an operation for one username touches\<close>

lemma create_session_frame:
  "filesystem_mcp_name (fst (create_session e clk self u cfg)) = filesystem_mcp_name self
   \<and> (v \<noteq> u \<longrightarrow> get_session (fst (create_session e clk self u cfg)) v = get_session self v)
   \<and> self_workspace_root (fst (create_session e clk self u cfg)) =
       (if api_key cfg = [] \<or> model_name cfg = [] then self_workspace_root self
        else Some (workspace_root cfg))
   \<and> self_mcp_configs (fst (create_session e clk self u cfg)) =
       (if api_key cfg = [] \<or> model_name cfg = [] then self_mcp_configs self
        else mcp_configs cfg)"
  by (simp add: create_session_eq get_session_def close_session_fields close_session_lookup
      update_conv' split: sum.splits option.splits)

lemma create_session_snd_cong:
  assumes "filesystem_mcp_name a = filesystem_mcp_name b"
  shows "snd (create_session e clk a u cfg) = snd (create_session e clk b u cfg)"
proof -
  have l: "load_mcp_server e (a\<lparr>self_workspace_root := r\<rparr>) u cs t =
      load_mcp_server e (b\<lparr>self_workspace_root := r\<rparr>) u cs t" for r cs t
    by (rule load_mcp_server_cong) (simp_all add: assms)
  show ?thesis
    unfolding create_session_eq l by (simp split: sum.splits option.splits)
qed

text \<open>
  C8, as amended. For distinct usernames \<open>u\<close> and \<open>v\<close>: closing, touching and chatting
  for \<open>u\<close> leave the three manager fields and the session of \<open>v\<close> as they were. Session
  creation for \<open>u\<close> leaves the filesystem-tool identifier and the session of \<open>v\<close> as they
  were, and, once its two configuration checks pass, overwrites the manager's workspace
  root and configuration-source list with those of \<open>u\<close>'s request. A later session
  creation overwrites both fields before it reads them, so its outcome does not depend
  on what an earlier one left there.
\<close>

theorem operations_frame:
  assumes "v \<noteq> u"
  shows "get_session (close_session self u) v = get_session self v
       \<and> filesystem_mcp_name (close_session self u) = filesystem_mcp_name self
       \<and> self_workspace_root (close_session self u) = self_workspace_root self
       \<and> self_mcp_configs (close_session self u) = self_mcp_configs self
       \<and> get_session (update_last_active clk self u) v = get_session self v
       \<and> filesystem_mcp_name (update_last_active clk self u) = filesystem_mcp_name self
       \<and> self_workspace_root (update_last_active clk self u) = self_workspace_root self
       \<and> self_mcp_configs (update_last_active clk self u) = self_mcp_configs self
       \<and> get_session (fst (chat e clk self \<lparr>msg_username = u, message = msg\<rparr>)) v
           = get_session self v
       \<and> filesystem_mcp_name (fst (chat e clk self \<lparr>msg_username = u, message = msg\<rparr>))
           = filesystem_mcp_name self
       \<and> self_workspace_root (fst (chat e clk self \<lparr>msg_username = u, message = msg\<rparr>))
           = self_workspace_root self
       \<and> self_mcp_configs (fst (chat e clk self \<lparr>msg_username = u, message = msg\<rparr>))
           = self_mcp_configs self
       \<and> get_session (fst (create_session e clk self u cfg)) v = get_session self v
       \<and> filesystem_mcp_name (fst (create_session e clk self u cfg)) = filesystem_mcp_name self
       \<and> self_workspace_root (fst (create_session e clk self u cfg)) =
           (if api_key cfg = [] \<or> model_name cfg = [] then self_workspace_root self
            else Some (workspace_root cfg))
       \<and> self_mcp_configs (fst (create_session e clk self u cfg)) =
           (if api_key cfg = [] \<or> model_name cfg = [] then self_mcp_configs self
            else mcp_configs cfg)
       \<and> snd (create_session e2 clk2 (fst (create_session e clk self u cfg)) v cfg2) =
           snd (create_session e2 clk2 self v cfg2)"
proof -
  have later: "snd (create_session e2 clk2 (fst (create_session e clk self u cfg)) v cfg2) =
           snd (create_session e2 clk2 self v cfg2)"
    by (rule create_session_snd_cong) (simp add: create_session_frame)
  have c: "get_session (close_session self u) v = get_session self v"
    "get_session (update_last_active clk self u) v = get_session self v"
    using assms by (simp_all add: get_session_def close_session_lookup update_last_active_lookup)
  have ch: "get_session (fst (chat e clk self \<lparr>msg_username = u, message = msg\<rparr>)) v
           = get_session self v"
    using chat_frame [of e clk self "\<lparr>msg_username = u, message = msg\<rparr>" v] assms by simp
  have cr: "get_session (fst (create_session e clk self u cfg)) v = get_session self v"
    using create_session_frame [of e clk self u cfg v] assms by simp
  show ?thesis
    using later c ch cr chat_frame [of e clk self "\<lparr>msg_username = u, message = msg\<rparr>" v]
      create_session_frame [of e clk self u cfg v]
    by (simp add: close_session_fields update_last_active_fields)
qed

theorem operations_frame_witness:
  "''bob'' \<noteq> ''alice''
   \<and> get_session two_manager ''bob'' = Some bob_session
   \<and> get_session (close_session two_manager ''alice'') ''bob'' = Some bob_session
   \<and> get_session (update_last_active (clock_at 3) two_manager ''alice'') ''bob'' = Some bob_session
   \<and> get_session (fst (chat demo_env (clock_at 3) two_manager (says ''alice'' ''hi''))) ''bob''
       = Some bob_session
   \<and> get_session (fst (create_session demo_env (clock_at 3) two_manager ''alice'' demo_config))
         ''bob'' = Some bob_session
   \<and> self_mcp_configs (fst (chat demo_env (clock_at 3) two_manager (says ''alice'' ''hi'')))
       = self_mcp_configs two_manager"
proof -
  have n: "''bob'' \<noteq> ''alice''" by simp
  have b: "get_session two_manager ''bob'' = Some bob_session"
    by (simp add: get_session_def two_manager_def)
  show ?thesis
    using operations_frame [OF n, where self = two_manager and clk = "clock_at 3"
        and e = demo_env and msg = "''hi''" and cfg = demo_config] b
    by (simp add: says_def)
qed

text \<open>
  C8 as stated fails: creating alice's session on the initial manager changes the
  manager's workspace root and its list of configuration sources.
\<close>

theorem create_session_mutates_manager_counterexample:
  "self_workspace_root init_manager = None
   \<and> self_mcp_configs init_manager = []
   \<and> self_workspace_root (fst (create_session demo_env (clock_at 3) init_manager ''alice'' demo_config))
       = Some ''/srv/workspace''
   \<and> self_mcp_configs (fst (create_session demo_env (clock_at 3) init_manager ''alice'' demo_config))
       = [''./config/mcp_config_base.json'', ''./config/mcp_config_office.json'']"
  by (simp add: demo_create) (simp add: init_manager_def)

section \<open>The administrator's extra source\<close>

lemma stamp_all_length:
  "stamp_all e self u t xs acc = Inr r \<Longrightarrow> length r = length acc + length xs"
proof (induction xs arbitrary: acc)
  case Nil
  then show ?case by simp
next
  case (Cons i xs)
  from Cons.prems obtain i' where
    r: "stamp_all e self u t xs (acc @ [i']) = Inr r"
    by (auto split: sum.splits)
  from Cons.IH [OF r] show ?case by simp
qed

lemma load_mcp_server_length:
  assumes "load_mcp_server e self u cs t = Inr r"
  shows "\<exists>ss. load_configs e cs [] = Inr ss \<and> length r = length ss"
  using assms
  by (auto simp add: load_mcp_server_def split: sum.splits dest: stamp_all_length)

lemma load_configs_snoc:
  "load_configs e (cs @ [c]) acc =
     (case load_configs e cs acc of
        Inl ex \<Rightarrow> Inl ex
      | Inr ss \<Rightarrow> (case load_mcp_servers e c of Inl ex \<Rightarrow> Inl ex | Inr s \<Rightarrow> Inr (ss @ s)))"
  by (induction cs arbitrary: acc) (simp_all split: sum.splits)

lemma login_session:
  assumes "login e clk self user = (self', Response b)"
  shows "\<exists>s ag. get_session self' (login_username user) = Some s \<and> agent s = Some ag
           \<and> mcp_configs (agent_config s) = login_mcp_configs (login_username user)
           \<and> (\<exists>ss. load_configs e (login_mcp_configs (login_username user)) [] = Inr ss
                   \<and> length (toolsets ag) = length ss)"
proof -
  from login_Response [OF assms] obtain s where
    c: "create_session e clk self (login_username user) (login_agent_config e user) = (self', Inr s)"
    by blast
  from create_session_Inr [OF c] obtain ag where
    s: "get_session self' (login_username user) = Some s"
      "agent_config s = login_agent_config e user" "agent s = Some ag"
    and p: "load_mcp_server e
         (self\<lparr>self_workspace_root := Some (workspace_root (login_agent_config e user))\<rparr>)
         (login_username user) (mcp_configs (login_agent_config e user)) 100 = Inr (toolsets ag)"
    by blast
  have m: "mcp_configs (login_agent_config e user) = login_mcp_configs (login_username user)"
    by (simp add: login_agent_config_def)
  from load_mcp_server_length [OF p] s m show ?thesis by auto
qed

text \<open>
  C10, as amended. For the username admin, and only for it, login gives the agent
  configuration the map source after the two base sources. Of two successful logins with
  the same fields, one as admin and one under another username, the admin's agent has as
  many tool servers as the other's plus those the map source lists: never fewer, and more
  exactly when the map source lists at least one.
\<close>

theorem admin_gets_map_source:
  assumes "u \<noteq> ''admin''"
    and "login e clk1 self1 (user\<lparr>login_username := ''admin''\<rparr>) = (selfA, Response bA)"
    and "login e clk2 self2 (user\<lparr>login_username := u\<rparr>) = (selfU, Response bU)"
  shows "\<exists>sA agA sU agU extra.
           get_session selfA ''admin'' = Some sA \<and> agent sA = Some agA
         \<and> get_session selfU u = Some sU \<and> agent sU = Some agU
         \<and> mcp_configs (agent_config sU) =
             [''./config/mcp_config_base.json'', ''./config/mcp_config_office.json'']
         \<and> mcp_configs (agent_config sA) =
             [''./config/mcp_config_base.json'', ''./config/mcp_config_office.json'',
              ''./config/mcp_config_map.json'']
         \<and> load_mcp_servers e ''./config/mcp_config_map.json'' = Inr extra
         \<and> length (toolsets agA) = length (toolsets agU) + length extra"
proof -
  let ?base = "[''./config/mcp_config_base.json'', ''./config/mcp_config_office.json'']"
  have ca: "login_mcp_configs ''admin'' = ?base @ [''./config/mcp_config_map.json'']"
    by (simp add: login_mcp_configs_def)
  have cu: "login_mcp_configs u = ?base"
    using assms(1) by (simp add: login_mcp_configs_def)
  from login_session [OF assms(2)] ca obtain sA agA ssA where
    a: "get_session selfA ''admin'' = Some sA" "agent sA = Some agA"
      "mcp_configs (agent_config sA) = ?base @ [''./config/mcp_config_map.json'']"
      "load_configs e (?base @ [''./config/mcp_config_map.json'']) [] = Inr ssA"
      "length (toolsets agA) = length ssA"
    by auto
  from login_session [OF assms(3)] cu obtain sU agU ssU where
    b: "get_session selfU u = Some sU" "agent sU = Some agU"
      "mcp_configs (agent_config sU) = ?base"
      "load_configs e ?base [] = Inr ssU"
      "length (toolsets agU) = length ssU"
    by auto
  from a(4) b(4) obtain extra where
    x: "load_mcp_servers e ''./config/mcp_config_map.json'' = Inr extra" "ssA = ssU @ extra"
    unfolding load_configs_snoc by (auto split: sum.splits)
  from a b x show ?thesis by simp
qed

lemma login_success:
  assumes "login_username user \<noteq> []" and "login_model_name user \<noteq> []"
    and "login_api_key user \<noteq> []" and "login_system_prompt user \<noteq> []"
    and "psycopg2_connect e = None"
    and "validate_login e (login_username user) (login_password user) = (True, True)"
    and "load_mcp_server e (self\<lparr>self_workspace_root := Some (abspath_workspace e)\<rparr>)
           (login_username user) (login_mcp_configs (login_username user)) 100 = Inr srv"
    and "agent_init e (login_agent_config e user) srv = None"
  shows "snd (login e clk self user) =
           Response (LoginBody (''user '' @ login_username user @ '' logged in'')
                       True (datetime_now clk))"
proof -
  have cfg: "api_key (login_agent_config e user) \<noteq> []"
    "model_name (login_agent_config e user) \<noteq> []"
    "workspace_root (login_agent_config e user) = abspath_workspace e"
    "mcp_configs (login_agent_config e user) = login_mcp_configs (login_username user)"
    using assms by (simp_all add: login_agent_config_def)
  show ?thesis
    unfolding login_authenticated [OF assms(1-6)] create_session_eq
    using assms(7,8) by (simp add: cfg)
qed

lemma bare_env_fields:
  "load_mcp_servers bare_env = demo_load []"
  "makedirs bare_env = (\<lambda>path. None)"
  "agent_init bare_env = (\<lambda>cfg servers. None)"
  "psycopg2_connect bare_env = None"
  "user_login_table bare_env = [(''alice'', ''pw''), (''admin'', ''pw'')]"
  "abspath_workspace bare_env = ''/srv/workspace''"
  by (simp_all add: bare_env_def demo_env_def)

lemma demo_logins_succeed:
  "snd (login demo_env (clock_at 0) init_manager (demo_login ''admin'' ''pw'')) =
     Response (LoginBody ''user admin logged in'' True ''now'')"
  "snd (login demo_env (clock_at 0) init_manager (demo_login ''alice'' ''pw'')) =
     Response (LoginBody ''user alice logged in'' True ''now'')"
  "snd (login bare_env (clock_at 0) init_manager (demo_login ''admin'' ''pw'')) =
     Response (LoginBody ''user admin logged in'' True ''now'')"
  "snd (login bare_env (clock_at 0) init_manager (demo_login ''alice'' ''pw'')) =
     Response (LoginBody ''user alice logged in'' True ''now'')"
proof -
  have p: "\<exists>srv. load_mcp_server e (init_manager\<lparr>self_workspace_root := Some ''/srv/workspace''\<rparr>)
              u (login_mcp_configs u) 100 = Inr srv"
    if "load_mcp_servers e = demo_load ms" "makedirs e = (\<lambda>path. None)"
      "ms = [] \<or> ms = [map_server]" for e u ms
    using that
    by (auto simp add: load_mcp_server_def login_mcp_configs_def demo_load_def stamp_server_def
        fs_server_def word_server_def map_server_def init_manager_def)
  have l: "snd (login e (clock_at 0) init_manager (demo_login u ''pw'')) =
     Response (LoginBody (''user '' @ u @ '' logged in'') True ''now'')"
    if "load_mcp_servers e = demo_load ms" "makedirs e = (\<lambda>path. None)"
      "ms = [] \<or> ms = [map_server]" "agent_init e = (\<lambda>cfg servers. None)"
      "psycopg2_connect e = None"
      "user_login_table e = [(''alice'', ''pw''), (''admin'', ''pw'')]"
      "abspath_workspace e = ''/srv/workspace''"
      "u = ''alice'' \<or> u = ''admin''" for e u ms
  proof -
    from p [OF that(1-3), of u] obtain srv where
      srv: "load_mcp_server e (init_manager\<lparr>self_workspace_root := Some ''/srv/workspace''\<rparr>)
              u (login_mcp_configs u) 100 = Inr srv"
      by blast
    have v: "validate_login e u ''pw'' = (True, True)"
      using that(6,8) by (auto simp add: validate_login_def)
    show ?thesis
      using login_success [where e = e and user = "demo_login u ''pw''" and self = init_manager
          and srv = srv and clk = "clock_at 0"] that(4,5,7,8) srv v
      by (auto simp add: demo_login_fields clock_at_def)
  qed
  show "snd (login demo_env (clock_at 0) init_manager (demo_login ''admin'' ''pw'')) =
     Response (LoginBody ''user admin logged in'' True ''now'')"
    using l [where e = demo_env and u = "''admin''" and ms = "[map_server]"]
    by (simp add: demo_env_fields)
  show "snd (login demo_env (clock_at 0) init_manager (demo_login ''alice'' ''pw'')) =
     Response (LoginBody ''user alice logged in'' True ''now'')"
    using l [where e = demo_env and u = "''alice''" and ms = "[map_server]"]
    by (simp add: demo_env_fields)
  show "snd (login bare_env (clock_at 0) init_manager (demo_login ''admin'' ''pw'')) =
     Response (LoginBody ''user admin logged in'' True ''now'')"
    using l [where e = bare_env and u = "''admin''" and ms = "[]"]
    by (simp add: bare_env_fields)
  show "snd (login bare_env (clock_at 0) init_manager (demo_login ''alice'' ''pw'')) =
     Response (LoginBody ''user alice logged in'' True ''now'')"
    using l [where e = bare_env and u = "''alice''" and ms = "[]"]
    by (simp add: bare_env_fields)
qed

lemma demo_login_rename:
  "(demo_login ''alice'' ''pw'')\<lparr>login_username := u\<rparr> = demo_login u ''pw''"
  by (simp add: demo_login_def)

lemma pair_of_snd: "snd p = b \<Longrightarrow> p = (fst p, b)"
  by (cases p) simp

theorem admin_gets_map_source_witness:
  "\<exists>sA agA sU agU.
      get_session (fst (login demo_env (clock_at 0) init_manager (demo_login ''admin'' ''pw'')))
        ''admin'' = Some sA
    \<and> agent sA = Some agA
    \<and> get_session (fst (login demo_env (clock_at 0) init_manager (demo_login ''alice'' ''pw'')))
        ''alice'' = Some sU
    \<and> agent sU = Some agU
    \<and> load_mcp_servers demo_env ''./config/mcp_config_map.json'' = Inr [map_server]
    \<and> length (toolsets agA) = length (toolsets agU) + 1"
proof -
  have n: "''alice'' \<noteq> ''admin''" by simp
  have m: "load_mcp_servers demo_env ''./config/mcp_config_map.json'' = Inr [map_server]"
    by (simp add: demo_env_fields demo_load_def)
  from admin_gets_map_source [OF n,
      where user = "demo_login ''alice'' ''pw''" and e = demo_env, unfolded demo_login_rename,
      OF pair_of_snd [OF demo_logins_succeed(1)] pair_of_snd [OF demo_logins_succeed(2)]]
  show ?thesis using m by auto
qed

text \<open>
  C10 as stated fails where the map configuration file lists no server: admin and alice
  log in with the same fields and both agents get two tool servers.
\<close>

theorem admin_toolset_not_larger_counterexample:
  "\<exists>sA agA sU agU.
      snd (login bare_env (clock_at 0) init_manager (demo_login ''admin'' ''pw''))
        = Response (LoginBody ''user admin logged in'' True ''now'')
    \<and> snd (login bare_env (clock_at 0) init_manager (demo_login ''alice'' ''pw''))
        = Response (LoginBody ''user alice logged in'' True ''now'')
    \<and> get_session (fst (login bare_env (clock_at 0) init_manager (demo_login ''admin'' ''pw'')))
        ''admin'' = Some sA
    \<and> agent sA = Some agA
    \<and> get_session (fst (login bare_env (clock_at 0) init_manager (demo_login ''alice'' ''pw'')))
        ''alice'' = Some sU
    \<and> agent sU = Some agU
    \<and> mcp_configs (agent_config sA) = mcp_configs (agent_config sU) @ [''./config/mcp_config_map.json'']
    \<and> length (toolsets agA) = length (toolsets agU)"
proof -
  have m: "load_mcp_servers bare_env ''./config/mcp_config_map.json'' = Inr []"
    by (simp add: bare_env_fields demo_load_def)
  have a: "\<exists>s ag. get_session (fst (login bare_env (clock_at 0) init_manager (demo_login ''admin'' ''pw'')))
        ''admin'' = Some s \<and> agent s = Some ag
      \<and> mcp_configs (agent_config s) = login_mcp_configs ''admin''
      \<and> (\<exists>ss. load_configs bare_env (login_mcp_configs ''admin'') [] = Inr ss
           \<and> length (toolsets ag) = length ss)"
    using login_session [OF pair_of_snd [OF demo_logins_succeed(3)]]
    by (simp add: demo_login_fields)
  have b: "\<exists>s ag. get_session (fst (login bare_env (clock_at 0) init_manager (demo_login ''alice'' ''pw'')))
        ''alice'' = Some s \<and> agent s = Some ag
      \<and> mcp_configs (agent_config s) = login_mcp_configs ''alice''
      \<and> (\<exists>ss. load_configs bare_env (login_mcp_configs ''alice'') [] = Inr ss
           \<and> length (toolsets ag) = length ss)"
    using login_session [OF pair_of_snd [OF demo_logins_succeed(4)]]
    by (simp add: demo_login_fields)
  have ca: "load_configs bare_env (login_mcp_configs ''admin'') [] = Inr [fs_server, word_server]"
    by (simp add: login_mcp_configs_def bare_env_fields demo_load_def)
  have cb: "load_configs bare_env (login_mcp_configs ''alice'') [] = Inr [fs_server, word_server]"
    by (simp add: login_mcp_configs_def bare_env_fields demo_load_def)
  have cfgs: "login_mcp_configs ''admin'' = login_mcp_configs ''alice'' @ [''./config/mcp_config_map.json'']"
    by (simp add: login_mcp_configs_def)
  from a [unfolded ca] b [unfolded cb] show ?thesis
    by (auto simp add: demo_logins_succeed cfgs)
qed

section \<open>Chat requests on one event loop\<close>







section \<open>The store is a dict\<close>

text \<open>
  The usernames of the store are distinct in the initial manager, and every operation
  keeps them so: the association list is a dict in every state the server reaches.
\<close>

lemma distinct_init: "distinct (map fst (sessions init_manager))"
  by (simp add: init_manager_def)

lemma distinct_close_session:
  "distinct (map fst (sessions self)) \<Longrightarrow> distinct (map fst (sessions (close_session self u)))"
  by (simp add: close_session_def distinct_delete)

lemma distinct_update_last_active:
  "distinct (map fst (sessions self)) \<Longrightarrow>
   distinct (map fst (sessions (update_last_active clk self u)))"
  by (simp add: update_last_active_def distinct_map_entry)

lemma distinct_create_session:
  assumes "distinct (map fst (sessions self))"
  shows "distinct (map fst (sessions (fst (create_session e clk self u cfg))))"
  using distinct_close_session [OF assms, of u]
  by (simp add: create_session_eq distinct_update split: sum.splits option.splits)

lemma distinct_chat:
  assumes "distinct (map fst (sessions self))"
  shows "distinct (map fst (sessions (fst (chat e clk self um))))"
  using chat_manager_cases [of e clk self um]
    distinct_update_last_active [OF assms, of clk "msg_username um"] assms
  by (auto simp add: distinct_map_entry)

lemma distinct_close_sessions:
  "distinct (map fst (sessions self)) \<Longrightarrow> distinct (map fst (sessions (close_sessions self us)))"
  by (induction us arbitrary: self) (simp_all add: distinct_close_session)

lemma distinct_cleanup:
  "distinct (map fst (sessions self)) \<Longrightarrow>
   distinct (map fst (sessions (cleanup_inactive_sessions clk self T)))"
  by (simp add: cleanup_inactive_sessions_def distinct_close_sessions)

lemma distinct_logout:
  "distinct (map fst (sessions self)) \<Longrightarrow> distinct (map fst (sessions (fst (logout self u))))"
  by (simp add: logout_def distinct_close_session)

lemma login_manager_cases:
  "fst (login e clk self user) = self
   \<or> fst (login e clk self user) =
       fst (create_session e clk self (login_username user) (login_agent_config e user))"
  by (auto simp add: login_def Let_def login_preclose
      split: sum.splits prod.splits exn.splits)

lemma distinct_login:
  assumes "distinct (map fst (sessions self))"
  shows "distinct (map fst (sessions (fst (login e clk self user))))"
  using login_manager_cases [of e clk self user] assms
    distinct_create_session [OF assms, of e clk "login_username user" "login_agent_config e user"]
  by auto

end
